theory Spec2Isabelle
  imports Complex_Main "HOL-Library.Sublist"
begin

section \<open>The data contract of the autopilot laws (AutopilotLaws_types.h)\<close>

text \<open>
  The header declares the input and output buses of the autopilot guidance laws as
  plain structs of scalars. Each struct is a record here, with the fields in the order
  of the header. The scalar types \<^verbatim>\<open>real_T\<close> and \<^verbatim>\<open>boolean_T\<close> come from
  \<^verbatim>\<open>rtwtypes.h\<close>, which the header includes and which is not part of the sources
  covered here.

  Modelled from the spec: \<^verbatim>\<open>real_T\<close> is the type of the real-valued fields and is
  \<^typ>\<open>real\<close> here; \<^verbatim>\<open>boolean_T\<close> is the type of the boolean flags and is
  \<^typ>\<open>bool\<close>. The raw sensor snapshot is the one place where the specification
  provides for values that are not finite (4.1 and 7(a), "non-finite inputs"). Its
  record therefore takes the type of its \<^verbatim>\<open>real_T\<close> members as a parameter: the
  snapshot the engine receives holds a \<open>sample\<close> in each of them, a finite real or a
  value that is not finite, and the same record over \<^typ>\<open>real option\<close> and over
  \<^typ>\<open>real\<close> serves the Input Conditioner for its cache of known-good values and
  for the snapshot after substitution.

  Several structs share field names. A later record hides the unqualified name of an
  earlier one, so the fields of \<open>ap_raw_data\<close> and of \<open>ap_laws_input\<close> are written with
  their record's name in front where both are in scope.
\<close>

text \<open>
  Modelled from the spec: a \<^verbatim>\<open>real_T\<close> value as a sensor supplies it, finite or not
  (4.1: "non-finite inputs are replaced ...").
\<close>

datatype sample = Finite real | Non_finite

record ap_raw_time =
  dt :: real
  simulation_time :: real

record 'r ap_raw_data =
  Theta_deg :: 'r
  Phi_deg :: 'r
  q_rad_s :: 'r
  r_rad_s :: 'r
  p_rad_s :: 'r
  V_ias_kn :: 'r
  V_tas_kn :: 'r
  V_mach :: 'r
  V_gnd_kn :: 'r
  alpha_deg :: 'r
  H_ft :: 'r
  H_ind_ft :: 'r
  H_radio_ft :: 'r
  H_dot_ft_min :: 'r
  Psi_magnetic_deg :: 'r
  Psi_magnetic_track_deg :: 'r
  Psi_true_deg :: 'r
  bx_m_s2 :: 'r
  by_m_s2 :: 'r
  bz_m_s2 :: 'r
  nav_valid :: bool
  nav_loc_deg :: 'r
  nav_gs_deg :: 'r
  nav_dme_valid :: 'r
  nav_dme_nmi :: 'r
  nav_loc_valid :: bool
  nav_loc_error_deg :: 'r
  nav_gs_valid :: bool
  nav_gs_error_deg :: 'r
  flight_guidance_xtk_nmi :: 'r
  flight_guidance_tae_deg :: 'r
  flight_guidance_phi_deg :: 'r
  flight_phase :: 'r
  V2_kn :: 'r
  VAPP_kn :: 'r
  VLS_kn :: 'r
  VMAX_kn :: 'r
  is_flight_plan_available :: bool
  altitude_constraint_ft :: 'r
  thrust_reduction_altitude :: 'r
  thrust_reduction_altitude_go_around :: 'r
  acceleration_altitude :: 'r
  acceleration_altitude_engine_out :: 'r
  acceleration_altitude_go_around :: 'r
  acceleration_altitude_go_around_engine_out :: 'r
  cruise_altitude :: 'r
  gear_strut_compression_1 :: 'r
  gear_strut_compression_2 :: 'r
  zeta_pos :: 'r
  throttle_lever_1_pos :: 'r
  throttle_lever_2_pos :: 'r
  flaps_handle_index :: 'r
  is_engine_operative_1 :: bool
  is_engine_operative_2 :: bool

record ap_raw_laws_input =
  enabled_AP1 :: real
  enabled_AP2 :: real
  lateral_law :: real
  lateral_mode :: real
  lateral_mode_armed :: real
  vertical_law :: real
  vertical_mode :: real
  vertical_mode_armed :: real
  mode_reversion_lateral :: real
  mode_reversion_vertical :: real
  mode_reversion_TRK_FPA :: bool
  mode_reversion_triple_click :: bool
  mode_reversion_fma :: bool
  speed_protection_mode :: bool
  autothrust_mode :: real
  Psi_c_deg :: real
  H_c_ft :: real
  H_dot_c_fpm :: real
  FPA_c_deg :: real
  V_c_kn :: real
  ALT_soft_mode_active :: bool
  ALT_cruise_mode_active :: bool
  EXPED_mode_active :: bool
  FD_disconnect :: bool
  FD_connect :: bool

record ap_laws_input =
  time :: ap_raw_time
  data :: "sample ap_raw_data"
  input :: ap_raw_laws_input

record ap_data =
  Theta_deg :: real
  Phi_deg :: real
  qk_deg_s :: real
  rk_deg_s :: real
  pk_deg_s :: real
  V_ias_kn :: real
  V_tas_kn :: real
  V_mach :: real
  V_gnd_kn :: real
  alpha_deg :: real
  H_ft :: real
  H_ind_ft :: real
  H_radio_ft :: real
  H_dot_ft_min :: real
  Psi_magnetic_deg :: real
  Psi_magnetic_track_deg :: real
  Psi_true_deg :: real
  ax_m_s2 :: real
  ay_m_s2 :: real
  az_m_s2 :: real
  bx_m_s2 :: real
  by_m_s2 :: real
  bz_m_s2 :: real
  nav_valid :: bool
  nav_loc_deg :: real
  nav_gs_deg :: real
  nav_dme_valid :: real
  nav_dme_nmi :: real
  nav_loc_valid :: bool
  nav_loc_error_deg :: real
  nav_gs_valid :: bool
  nav_gs_error_deg :: real
  flight_guidance_xtk_nmi :: real
  flight_guidance_tae_deg :: real
  flight_guidance_phi_deg :: real
  flight_phase :: real
  V2_kn :: real
  VAPP_kn :: real
  VLS_kn :: real
  VMAX_kn :: real
  is_flight_plan_available :: bool
  altitude_constraint_ft :: real
  thrust_reduction_altitude :: real
  thrust_reduction_altitude_go_around :: real
  acceleration_altitude :: real
  acceleration_altitude_engine_out :: real
  acceleration_altitude_go_around :: real
  acceleration_altitude_go_around_engine_out :: real
  cruise_altitude :: real
  on_ground :: real
  zeta_deg :: real
  throttle_lever_1_pos :: real
  throttle_lever_2_pos :: real
  flaps_handle_index :: real
  is_engine_operative_1 :: bool
  is_engine_operative_2 :: bool

record ap_raw_output_command =
  Theta_c_deg :: real
  Phi_c_deg :: real
  Beta_c_deg :: real

record ap_raw_output =
  ap_on :: real
  Phi_loc_c :: real
  flight_director :: ap_raw_output_command
  autopilot :: ap_raw_output_command

record ap_laws_output =
  time :: ap_raw_time
  data :: ap_data
  input :: ap_raw_laws_input
  output' :: ap_raw_output

text \<open>
  The struct \<^verbatim>\<open>ap_output_law\<close> (two \<^verbatim>\<open>real_T\<close> members, \<^verbatim>\<open>flight_director\<close> and
  \<^verbatim>\<open>autopilot\<close>) is part of neither bus; it is transcribed with the declarations below
  and has no record of its own, so that the two member names stay those of
  \<open>ap_raw_output\<close>. The member \<^verbatim>\<open>output\<close> of \<^verbatim>\<open>ap_laws_output\<close> is written \<open>output'\<close>:
  the plain word is reserved in theory text.
\<close>

subsection \<open>The declarations as data\<close>

text \<open>
  Some statements are about the declarations themselves (which fields a struct has and
  with which type). For those the header is also transcribed as data: every struct is
  the list of its members, name and declared type, in the order of the header.
\<close>

datatype ctype = Real_T | Boolean_T | Struct string

definition ap_raw_time_fields :: "(string \<times> ctype) list" where
  "ap_raw_time_fields =
    [(''dt'', Real_T),
     (''simulation_time'', Real_T)]"

definition ap_raw_data_fields :: "(string \<times> ctype) list" where
  "ap_raw_data_fields =
    [(''Theta_deg'', Real_T),
     (''Phi_deg'', Real_T),
     (''q_rad_s'', Real_T),
     (''r_rad_s'', Real_T),
     (''p_rad_s'', Real_T),
     (''V_ias_kn'', Real_T),
     (''V_tas_kn'', Real_T),
     (''V_mach'', Real_T),
     (''V_gnd_kn'', Real_T),
     (''alpha_deg'', Real_T),
     (''H_ft'', Real_T),
     (''H_ind_ft'', Real_T),
     (''H_radio_ft'', Real_T),
     (''H_dot_ft_min'', Real_T),
     (''Psi_magnetic_deg'', Real_T),
     (''Psi_magnetic_track_deg'', Real_T),
     (''Psi_true_deg'', Real_T),
     (''bx_m_s2'', Real_T),
     (''by_m_s2'', Real_T),
     (''bz_m_s2'', Real_T),
     (''nav_valid'', Boolean_T),
     (''nav_loc_deg'', Real_T),
     (''nav_gs_deg'', Real_T),
     (''nav_dme_valid'', Real_T),
     (''nav_dme_nmi'', Real_T),
     (''nav_loc_valid'', Boolean_T),
     (''nav_loc_error_deg'', Real_T),
     (''nav_gs_valid'', Boolean_T),
     (''nav_gs_error_deg'', Real_T),
     (''flight_guidance_xtk_nmi'', Real_T),
     (''flight_guidance_tae_deg'', Real_T),
     (''flight_guidance_phi_deg'', Real_T),
     (''flight_phase'', Real_T),
     (''V2_kn'', Real_T),
     (''VAPP_kn'', Real_T),
     (''VLS_kn'', Real_T),
     (''VMAX_kn'', Real_T),
     (''is_flight_plan_available'', Boolean_T),
     (''altitude_constraint_ft'', Real_T),
     (''thrust_reduction_altitude'', Real_T),
     (''thrust_reduction_altitude_go_around'', Real_T),
     (''acceleration_altitude'', Real_T),
     (''acceleration_altitude_engine_out'', Real_T),
     (''acceleration_altitude_go_around'', Real_T),
     (''acceleration_altitude_go_around_engine_out'', Real_T),
     (''cruise_altitude'', Real_T),
     (''gear_strut_compression_1'', Real_T),
     (''gear_strut_compression_2'', Real_T),
     (''zeta_pos'', Real_T),
     (''throttle_lever_1_pos'', Real_T),
     (''throttle_lever_2_pos'', Real_T),
     (''flaps_handle_index'', Real_T),
     (''is_engine_operative_1'', Boolean_T),
     (''is_engine_operative_2'', Boolean_T)]"

definition ap_raw_laws_input_fields :: "(string \<times> ctype) list" where
  "ap_raw_laws_input_fields =
    [(''enabled_AP1'', Real_T),
     (''enabled_AP2'', Real_T),
     (''lateral_law'', Real_T),
     (''lateral_mode'', Real_T),
     (''lateral_mode_armed'', Real_T),
     (''vertical_law'', Real_T),
     (''vertical_mode'', Real_T),
     (''vertical_mode_armed'', Real_T),
     (''mode_reversion_lateral'', Real_T),
     (''mode_reversion_vertical'', Real_T),
     (''mode_reversion_TRK_FPA'', Boolean_T),
     (''mode_reversion_triple_click'', Boolean_T),
     (''mode_reversion_fma'', Boolean_T),
     (''speed_protection_mode'', Boolean_T),
     (''autothrust_mode'', Real_T),
     (''Psi_c_deg'', Real_T),
     (''H_c_ft'', Real_T),
     (''H_dot_c_fpm'', Real_T),
     (''FPA_c_deg'', Real_T),
     (''V_c_kn'', Real_T),
     (''ALT_soft_mode_active'', Boolean_T),
     (''ALT_cruise_mode_active'', Boolean_T),
     (''EXPED_mode_active'', Boolean_T),
     (''FD_disconnect'', Boolean_T),
     (''FD_connect'', Boolean_T)]"

definition ap_laws_input_fields :: "(string \<times> ctype) list" where
  "ap_laws_input_fields =
    [(''time'', Struct ''ap_raw_time''),
     (''data'', Struct ''ap_raw_data''),
     (''input'', Struct ''ap_raw_laws_input'')]"

definition ap_data_fields :: "(string \<times> ctype) list" where
  "ap_data_fields =
    [(''Theta_deg'', Real_T),
     (''Phi_deg'', Real_T),
     (''qk_deg_s'', Real_T),
     (''rk_deg_s'', Real_T),
     (''pk_deg_s'', Real_T),
     (''V_ias_kn'', Real_T),
     (''V_tas_kn'', Real_T),
     (''V_mach'', Real_T),
     (''V_gnd_kn'', Real_T),
     (''alpha_deg'', Real_T),
     (''H_ft'', Real_T),
     (''H_ind_ft'', Real_T),
     (''H_radio_ft'', Real_T),
     (''H_dot_ft_min'', Real_T),
     (''Psi_magnetic_deg'', Real_T),
     (''Psi_magnetic_track_deg'', Real_T),
     (''Psi_true_deg'', Real_T),
     (''ax_m_s2'', Real_T),
     (''ay_m_s2'', Real_T),
     (''az_m_s2'', Real_T),
     (''bx_m_s2'', Real_T),
     (''by_m_s2'', Real_T),
     (''bz_m_s2'', Real_T),
     (''nav_valid'', Boolean_T),
     (''nav_loc_deg'', Real_T),
     (''nav_gs_deg'', Real_T),
     (''nav_dme_valid'', Real_T),
     (''nav_dme_nmi'', Real_T),
     (''nav_loc_valid'', Boolean_T),
     (''nav_loc_error_deg'', Real_T),
     (''nav_gs_valid'', Boolean_T),
     (''nav_gs_error_deg'', Real_T),
     (''flight_guidance_xtk_nmi'', Real_T),
     (''flight_guidance_tae_deg'', Real_T),
     (''flight_guidance_phi_deg'', Real_T),
     (''flight_phase'', Real_T),
     (''V2_kn'', Real_T),
     (''VAPP_kn'', Real_T),
     (''VLS_kn'', Real_T),
     (''VMAX_kn'', Real_T),
     (''is_flight_plan_available'', Boolean_T),
     (''altitude_constraint_ft'', Real_T),
     (''thrust_reduction_altitude'', Real_T),
     (''thrust_reduction_altitude_go_around'', Real_T),
     (''acceleration_altitude'', Real_T),
     (''acceleration_altitude_engine_out'', Real_T),
     (''acceleration_altitude_go_around'', Real_T),
     (''acceleration_altitude_go_around_engine_out'', Real_T),
     (''cruise_altitude'', Real_T),
     (''on_ground'', Real_T),
     (''zeta_deg'', Real_T),
     (''throttle_lever_1_pos'', Real_T),
     (''throttle_lever_2_pos'', Real_T),
     (''flaps_handle_index'', Real_T),
     (''is_engine_operative_1'', Boolean_T),
     (''is_engine_operative_2'', Boolean_T)]"

definition ap_raw_output_command_fields :: "(string \<times> ctype) list" where
  "ap_raw_output_command_fields =
    [(''Theta_c_deg'', Real_T),
     (''Phi_c_deg'', Real_T),
     (''Beta_c_deg'', Real_T)]"

definition ap_raw_output_fields :: "(string \<times> ctype) list" where
  "ap_raw_output_fields =
    [(''ap_on'', Real_T),
     (''Phi_loc_c'', Real_T),
     (''flight_director'', Struct ''ap_raw_output_command''),
     (''autopilot'', Struct ''ap_raw_output_command'')]"

definition ap_laws_output_fields :: "(string \<times> ctype) list" where
  "ap_laws_output_fields =
    [(''time'', Struct ''ap_raw_time''),
     (''data'', Struct ''ap_data''),
     (''input'', Struct ''ap_raw_laws_input''),
     (''output'', Struct ''ap_raw_output'')]"

definition ap_output_law_fields :: "(string \<times> ctype) list" where
  "ap_output_law_fields =
    [(''flight_director'', Real_T),
     (''autopilot'', Real_T)]"

definition field_names :: "(string \<times> ctype) list \<Rightarrow> string list" where
  "field_names fs = map fst fs"

definition field_type :: "(string \<times> ctype) list \<Rightarrow> string \<Rightarrow> ctype option" where
  "field_type fs n = map_of fs n"

text \<open>
  Accelerations are the members whose name carries the unit suffix \<^verbatim>\<open>_m_s2\<close>.
\<close>

definition is_acceleration_field :: "string \<Rightarrow> bool" where
  "is_acceleration_field n = suffix ''_m_s2'' n"

definition acceleration_fields :: "(string \<times> ctype) list \<Rightarrow> string list" where
  "acceleration_fields fs = filter is_acceleration_field (field_names fs)"

definition only_in_conditioned :: "string \<Rightarrow> bool" where
  "only_in_conditioned n =
     (n \<in> set (field_names ap_data_fields) \<and> n \<notin> set (field_names ap_raw_data_fields))"





section \<open>The guidance-law step\<close>

text \<open>
  The header declares the two buses and nothing else. The step function that reads an
  \<open>ap_laws_input\<close> and writes an \<open>ap_laws_output\<close> once per simulation tick, and every
  component it is made of, are in the implementation file of the laws, which is not part
  of the sources covered here. The definitions of this section are therefore written
  from the specification, sentence by sentence, and each one says so.

  The specification leaves the numeric content of the laws open (gain schedules,
  capture thresholds, filter constants, the plausible bounds of the sensor values, the
  guards of the two mode arbiters) and asks that they be treated as externally
  configurable. They are parameters here: the record \<open>tuning\<close> holds them, and every
  statement below holds for every tuning.
\<close>

subsection \<open>Tuning data\<close>

text \<open>
  Modelled from the spec: the tuning data that sections 4.1 to 4.6 and the design notes
  refer to and that the sources do not contain. \<open>'st\<close> is the persistent state of the
  estimator and the two arbiters (mode identifiers, capture sub-state, timers, velocity
  history), \<open>'lat\<close> and \<open>'ver\<close> are the lateral and the vertical target an arbiter
  hands to the synthesizer.
  \<^item> \<open>ceiling_ft\<close>: the service ceiling altitudes are clamped to (4.1);
  \<^item> \<open>plausible\<close>: the physically plausible bounds, lowest and highest value, of the
    conditioned member of a given name (4.1);
  \<^item> \<open>fallback\<close>: the safe default of the raw member of a given name, for the members
    whose default 4.1 does not name;
  \<^item> \<open>ground_contact\<close>, \<open>rudder_deg\<close>: how the conditioned \<open>on_ground\<close> and
    \<open>zeta_deg\<close> are obtained from the raw strut compressions and rudder position,
    which the specification does not say;
  \<^item> \<open>idle\<close>: the command a gated output carries while its gate is closed;
  \<^item> \<open>initial_laws_state\<close>: the state after a reset;
  \<^item> \<open>estimate\<close>: the Derivative Estimator (4.2), from its state, the time base and
    the conditioned snapshot to the three accelerations;
  \<^item> \<open>arbitrate_lateral\<close>, \<open>arbitrate_vertical\<close>: the two mode arbiters (4.3, 4.4),
    each giving its target and whether it raised a mode reversion;
  \<^item> \<open>protect_speed\<close>: the clamp of the Speed Protection Supervisor (4.5), giving the
    clamped target and whether it clamped;
  \<^item> \<open>track\<close>: the tracking law of the Command Synthesizer (4.6);
  \<^item> \<open>loc_bank\<close>: the localizer bank term \<^verbatim>\<open>Phi_loc_c\<close> (4.6).
\<close>

record ('st, 'lat, 'ver) tuning =
  ceiling_ft :: real
  plausible :: "string \<Rightarrow> real \<times> real"
  fallback :: "string \<Rightarrow> real"
  ground_contact :: "real \<Rightarrow> real \<Rightarrow> real"
  rudder_deg :: "real \<Rightarrow> real"
  idle :: ap_raw_output_command
  initial_laws_state :: 'st
  estimate :: "'st \<Rightarrow> ap_raw_time \<Rightarrow> ap_data \<Rightarrow> (real \<times> real \<times> real) \<times> 'st"
  arbitrate_lateral ::
    "'st \<Rightarrow> ap_raw_time \<Rightarrow> ap_data \<Rightarrow> ap_raw_laws_input \<Rightarrow> ('lat \<times> bool) \<times> 'st"
  arbitrate_vertical ::
    "'st \<Rightarrow> ap_raw_time \<Rightarrow> ap_data \<Rightarrow> ap_raw_laws_input \<Rightarrow> ('ver \<times> bool) \<times> 'st"
  protect_speed :: "ap_raw_laws_input \<Rightarrow> ap_data \<Rightarrow> 'ver \<Rightarrow> 'ver \<times> bool"
  track :: "'lat \<Rightarrow> 'ver \<Rightarrow> ap_data \<Rightarrow> ap_raw_output_command"
  loc_bank :: "ap_data \<Rightarrow> real"

subsection \<open>Input Conditioner\<close>

text \<open>
  Modelled from the spec: 4.1, "non-finite inputs are replaced by the last known-good
  value for that field; if no known-good value exists, a safe default ... is
  substituted". A finite sample stands for itself.
\<close>

definition known_good :: "real option \<Rightarrow> real \<Rightarrow> sample \<Rightarrow> real" where
  "known_good known safe s =
     (case s of
        Finite x \<Rightarrow> x
      | Non_finite \<Rightarrow> (case known of Some y \<Rightarrow> y | None \<Rightarrow> safe))"

text \<open>
  Modelled from the spec: 4.1, "side effect: updates the last known-good cache". A
  finite sample becomes the known-good value of its member; a non-finite one leaves the
  cache as it is.
\<close>

definition remember :: "real option \<Rightarrow> sample \<Rightarrow> real option" where
  "remember known s = (case s of Finite x \<Rightarrow> Some x | Non_finite \<Rightarrow> known)"

text \<open>
  Modelled from the spec: the substitution of 4.1, member by member, with "a safe
  default (zero rate, current attitude)": zero for the three body rates, the attitude of
  the snapshot the engine currently holds for pitch and roll, and the fallback of the
  tuning for the members whose default the specification does not name. The boolean
  members have no non-finite value and are passed on.
\<close>

definition substitute ::
  "('st, 'lat, 'ver) tuning \<Rightarrow> real option ap_raw_data \<Rightarrow> ap_data \<Rightarrow> sample ap_raw_data
     \<Rightarrow> real ap_raw_data" where
  "substitute cfg known held r =
     \<lparr>
       ap_raw_data.Theta_deg = known_good (ap_raw_data.Theta_deg known) (Theta_deg held) (ap_raw_data.Theta_deg r),
       ap_raw_data.Phi_deg = known_good (ap_raw_data.Phi_deg known) (Phi_deg held) (ap_raw_data.Phi_deg r),
       ap_raw_data.q_rad_s = known_good (ap_raw_data.q_rad_s known) 0 (ap_raw_data.q_rad_s r),
       ap_raw_data.r_rad_s = known_good (ap_raw_data.r_rad_s known) 0 (ap_raw_data.r_rad_s r),
       ap_raw_data.p_rad_s = known_good (ap_raw_data.p_rad_s known) 0 (ap_raw_data.p_rad_s r),
       ap_raw_data.V_ias_kn = known_good (ap_raw_data.V_ias_kn known) (fallback cfg ''V_ias_kn'') (ap_raw_data.V_ias_kn r),
       ap_raw_data.V_tas_kn = known_good (ap_raw_data.V_tas_kn known) (fallback cfg ''V_tas_kn'') (ap_raw_data.V_tas_kn r),
       ap_raw_data.V_mach = known_good (ap_raw_data.V_mach known) (fallback cfg ''V_mach'') (ap_raw_data.V_mach r),
       ap_raw_data.V_gnd_kn = known_good (ap_raw_data.V_gnd_kn known) (fallback cfg ''V_gnd_kn'') (ap_raw_data.V_gnd_kn r),
       ap_raw_data.alpha_deg = known_good (ap_raw_data.alpha_deg known) (fallback cfg ''alpha_deg'') (ap_raw_data.alpha_deg r),
       ap_raw_data.H_ft = known_good (ap_raw_data.H_ft known) (fallback cfg ''H_ft'') (ap_raw_data.H_ft r),
       ap_raw_data.H_ind_ft = known_good (ap_raw_data.H_ind_ft known) (fallback cfg ''H_ind_ft'') (ap_raw_data.H_ind_ft r),
       ap_raw_data.H_radio_ft = known_good (ap_raw_data.H_radio_ft known) (fallback cfg ''H_radio_ft'') (ap_raw_data.H_radio_ft r),
       ap_raw_data.H_dot_ft_min = known_good (ap_raw_data.H_dot_ft_min known) (fallback cfg ''H_dot_ft_min'') (ap_raw_data.H_dot_ft_min r),
       ap_raw_data.Psi_magnetic_deg = known_good (ap_raw_data.Psi_magnetic_deg known) (fallback cfg ''Psi_magnetic_deg'') (ap_raw_data.Psi_magnetic_deg r),
       ap_raw_data.Psi_magnetic_track_deg = known_good (ap_raw_data.Psi_magnetic_track_deg known) (fallback cfg ''Psi_magnetic_track_deg'') (ap_raw_data.Psi_magnetic_track_deg r),
       ap_raw_data.Psi_true_deg = known_good (ap_raw_data.Psi_true_deg known) (fallback cfg ''Psi_true_deg'') (ap_raw_data.Psi_true_deg r),
       ap_raw_data.bx_m_s2 = known_good (ap_raw_data.bx_m_s2 known) (fallback cfg ''bx_m_s2'') (ap_raw_data.bx_m_s2 r),
       ap_raw_data.by_m_s2 = known_good (ap_raw_data.by_m_s2 known) (fallback cfg ''by_m_s2'') (ap_raw_data.by_m_s2 r),
       ap_raw_data.bz_m_s2 = known_good (ap_raw_data.bz_m_s2 known) (fallback cfg ''bz_m_s2'') (ap_raw_data.bz_m_s2 r),
       ap_raw_data.nav_valid = ap_raw_data.nav_valid r,
       ap_raw_data.nav_loc_deg = known_good (ap_raw_data.nav_loc_deg known) (fallback cfg ''nav_loc_deg'') (ap_raw_data.nav_loc_deg r),
       ap_raw_data.nav_gs_deg = known_good (ap_raw_data.nav_gs_deg known) (fallback cfg ''nav_gs_deg'') (ap_raw_data.nav_gs_deg r),
       ap_raw_data.nav_dme_valid = known_good (ap_raw_data.nav_dme_valid known) (fallback cfg ''nav_dme_valid'') (ap_raw_data.nav_dme_valid r),
       ap_raw_data.nav_dme_nmi = known_good (ap_raw_data.nav_dme_nmi known) (fallback cfg ''nav_dme_nmi'') (ap_raw_data.nav_dme_nmi r),
       ap_raw_data.nav_loc_valid = ap_raw_data.nav_loc_valid r,
       ap_raw_data.nav_loc_error_deg = known_good (ap_raw_data.nav_loc_error_deg known) (fallback cfg ''nav_loc_error_deg'') (ap_raw_data.nav_loc_error_deg r),
       ap_raw_data.nav_gs_valid = ap_raw_data.nav_gs_valid r,
       ap_raw_data.nav_gs_error_deg = known_good (ap_raw_data.nav_gs_error_deg known) (fallback cfg ''nav_gs_error_deg'') (ap_raw_data.nav_gs_error_deg r),
       ap_raw_data.flight_guidance_xtk_nmi = known_good (ap_raw_data.flight_guidance_xtk_nmi known) (fallback cfg ''flight_guidance_xtk_nmi'') (ap_raw_data.flight_guidance_xtk_nmi r),
       ap_raw_data.flight_guidance_tae_deg = known_good (ap_raw_data.flight_guidance_tae_deg known) (fallback cfg ''flight_guidance_tae_deg'') (ap_raw_data.flight_guidance_tae_deg r),
       ap_raw_data.flight_guidance_phi_deg = known_good (ap_raw_data.flight_guidance_phi_deg known) (fallback cfg ''flight_guidance_phi_deg'') (ap_raw_data.flight_guidance_phi_deg r),
       ap_raw_data.flight_phase = known_good (ap_raw_data.flight_phase known) (fallback cfg ''flight_phase'') (ap_raw_data.flight_phase r),
       ap_raw_data.V2_kn = known_good (ap_raw_data.V2_kn known) (fallback cfg ''V2_kn'') (ap_raw_data.V2_kn r),
       ap_raw_data.VAPP_kn = known_good (ap_raw_data.VAPP_kn known) (fallback cfg ''VAPP_kn'') (ap_raw_data.VAPP_kn r),
       ap_raw_data.VLS_kn = known_good (ap_raw_data.VLS_kn known) (fallback cfg ''VLS_kn'') (ap_raw_data.VLS_kn r),
       ap_raw_data.VMAX_kn = known_good (ap_raw_data.VMAX_kn known) (fallback cfg ''VMAX_kn'') (ap_raw_data.VMAX_kn r),
       ap_raw_data.is_flight_plan_available = ap_raw_data.is_flight_plan_available r,
       ap_raw_data.altitude_constraint_ft = known_good (ap_raw_data.altitude_constraint_ft known) (fallback cfg ''altitude_constraint_ft'') (ap_raw_data.altitude_constraint_ft r),
       ap_raw_data.thrust_reduction_altitude = known_good (ap_raw_data.thrust_reduction_altitude known) (fallback cfg ''thrust_reduction_altitude'') (ap_raw_data.thrust_reduction_altitude r),
       ap_raw_data.thrust_reduction_altitude_go_around = known_good (ap_raw_data.thrust_reduction_altitude_go_around known) (fallback cfg ''thrust_reduction_altitude_go_around'') (ap_raw_data.thrust_reduction_altitude_go_around r),
       ap_raw_data.acceleration_altitude = known_good (ap_raw_data.acceleration_altitude known) (fallback cfg ''acceleration_altitude'') (ap_raw_data.acceleration_altitude r),
       ap_raw_data.acceleration_altitude_engine_out = known_good (ap_raw_data.acceleration_altitude_engine_out known) (fallback cfg ''acceleration_altitude_engine_out'') (ap_raw_data.acceleration_altitude_engine_out r),
       ap_raw_data.acceleration_altitude_go_around = known_good (ap_raw_data.acceleration_altitude_go_around known) (fallback cfg ''acceleration_altitude_go_around'') (ap_raw_data.acceleration_altitude_go_around r),
       ap_raw_data.acceleration_altitude_go_around_engine_out = known_good (ap_raw_data.acceleration_altitude_go_around_engine_out known) (fallback cfg ''acceleration_altitude_go_around_engine_out'') (ap_raw_data.acceleration_altitude_go_around_engine_out r),
       ap_raw_data.cruise_altitude = known_good (ap_raw_data.cruise_altitude known) (fallback cfg ''cruise_altitude'') (ap_raw_data.cruise_altitude r),
       ap_raw_data.gear_strut_compression_1 = known_good (ap_raw_data.gear_strut_compression_1 known) (fallback cfg ''gear_strut_compression_1'') (ap_raw_data.gear_strut_compression_1 r),
       ap_raw_data.gear_strut_compression_2 = known_good (ap_raw_data.gear_strut_compression_2 known) (fallback cfg ''gear_strut_compression_2'') (ap_raw_data.gear_strut_compression_2 r),
       ap_raw_data.zeta_pos = known_good (ap_raw_data.zeta_pos known) (fallback cfg ''zeta_pos'') (ap_raw_data.zeta_pos r),
       ap_raw_data.throttle_lever_1_pos = known_good (ap_raw_data.throttle_lever_1_pos known) (fallback cfg ''throttle_lever_1_pos'') (ap_raw_data.throttle_lever_1_pos r),
       ap_raw_data.throttle_lever_2_pos = known_good (ap_raw_data.throttle_lever_2_pos known) (fallback cfg ''throttle_lever_2_pos'') (ap_raw_data.throttle_lever_2_pos r),
       ap_raw_data.flaps_handle_index = known_good (ap_raw_data.flaps_handle_index known) (fallback cfg ''flaps_handle_index'') (ap_raw_data.flaps_handle_index r),
       ap_raw_data.is_engine_operative_1 = ap_raw_data.is_engine_operative_1 r,
       ap_raw_data.is_engine_operative_2 = ap_raw_data.is_engine_operative_2 r
     \<rparr>"

text \<open>
  Modelled from the spec: a validity flag held in a sample is true when the sample is
  finite and not zero.
\<close>

definition sample_set :: "sample \<Rightarrow> bool" where
  "sample_set s = (case s of Finite x \<Rightarrow> x \<noteq> 0 | Non_finite \<Rightarrow> False)"

text \<open>
  Modelled from the spec: the cache of 4.1 after a snapshot has been read. A gated
  navigation member read while a flag it goes with is false is "meaningless" (3) and is
  no known-good value: the cache keeps what it had for that member.
\<close>

definition refresh ::
  "real option ap_raw_data \<Rightarrow> sample ap_raw_data \<Rightarrow> real option ap_raw_data" where
  "refresh known r =
     \<lparr>
       ap_raw_data.Theta_deg = remember (ap_raw_data.Theta_deg known) (ap_raw_data.Theta_deg r),
       ap_raw_data.Phi_deg = remember (ap_raw_data.Phi_deg known) (ap_raw_data.Phi_deg r),
       ap_raw_data.q_rad_s = remember (ap_raw_data.q_rad_s known) (ap_raw_data.q_rad_s r),
       ap_raw_data.r_rad_s = remember (ap_raw_data.r_rad_s known) (ap_raw_data.r_rad_s r),
       ap_raw_data.p_rad_s = remember (ap_raw_data.p_rad_s known) (ap_raw_data.p_rad_s r),
       ap_raw_data.V_ias_kn = remember (ap_raw_data.V_ias_kn known) (ap_raw_data.V_ias_kn r),
       ap_raw_data.V_tas_kn = remember (ap_raw_data.V_tas_kn known) (ap_raw_data.V_tas_kn r),
       ap_raw_data.V_mach = remember (ap_raw_data.V_mach known) (ap_raw_data.V_mach r),
       ap_raw_data.V_gnd_kn = remember (ap_raw_data.V_gnd_kn known) (ap_raw_data.V_gnd_kn r),
       ap_raw_data.alpha_deg = remember (ap_raw_data.alpha_deg known) (ap_raw_data.alpha_deg r),
       ap_raw_data.H_ft = remember (ap_raw_data.H_ft known) (ap_raw_data.H_ft r),
       ap_raw_data.H_ind_ft = remember (ap_raw_data.H_ind_ft known) (ap_raw_data.H_ind_ft r),
       ap_raw_data.H_radio_ft = remember (ap_raw_data.H_radio_ft known) (ap_raw_data.H_radio_ft r),
       ap_raw_data.H_dot_ft_min = remember (ap_raw_data.H_dot_ft_min known) (ap_raw_data.H_dot_ft_min r),
       ap_raw_data.Psi_magnetic_deg = remember (ap_raw_data.Psi_magnetic_deg known) (ap_raw_data.Psi_magnetic_deg r),
       ap_raw_data.Psi_magnetic_track_deg = remember (ap_raw_data.Psi_magnetic_track_deg known) (ap_raw_data.Psi_magnetic_track_deg r),
       ap_raw_data.Psi_true_deg = remember (ap_raw_data.Psi_true_deg known) (ap_raw_data.Psi_true_deg r),
       ap_raw_data.bx_m_s2 = remember (ap_raw_data.bx_m_s2 known) (ap_raw_data.bx_m_s2 r),
       ap_raw_data.by_m_s2 = remember (ap_raw_data.by_m_s2 known) (ap_raw_data.by_m_s2 r),
       ap_raw_data.bz_m_s2 = remember (ap_raw_data.bz_m_s2 known) (ap_raw_data.bz_m_s2 r),
       ap_raw_data.nav_valid = ap_raw_data.nav_valid r,
       ap_raw_data.nav_loc_deg =
         (if ap_raw_data.nav_valid r \<and> ap_raw_data.nav_loc_valid r
          then remember (ap_raw_data.nav_loc_deg known) (ap_raw_data.nav_loc_deg r)
          else ap_raw_data.nav_loc_deg known),
       ap_raw_data.nav_gs_deg =
         (if ap_raw_data.nav_valid r \<and> ap_raw_data.nav_gs_valid r
          then remember (ap_raw_data.nav_gs_deg known) (ap_raw_data.nav_gs_deg r)
          else ap_raw_data.nav_gs_deg known),
       ap_raw_data.nav_dme_valid = remember (ap_raw_data.nav_dme_valid known) (ap_raw_data.nav_dme_valid r),
       ap_raw_data.nav_dme_nmi =
         (if ap_raw_data.nav_valid r \<and> sample_set (ap_raw_data.nav_dme_valid r)
          then remember (ap_raw_data.nav_dme_nmi known) (ap_raw_data.nav_dme_nmi r)
          else ap_raw_data.nav_dme_nmi known),
       ap_raw_data.nav_loc_valid = ap_raw_data.nav_loc_valid r,
       ap_raw_data.nav_loc_error_deg =
         (if ap_raw_data.nav_valid r \<and> ap_raw_data.nav_loc_valid r
          then remember (ap_raw_data.nav_loc_error_deg known) (ap_raw_data.nav_loc_error_deg r)
          else ap_raw_data.nav_loc_error_deg known),
       ap_raw_data.nav_gs_valid = ap_raw_data.nav_gs_valid r,
       ap_raw_data.nav_gs_error_deg =
         (if ap_raw_data.nav_valid r \<and> ap_raw_data.nav_gs_valid r
          then remember (ap_raw_data.nav_gs_error_deg known) (ap_raw_data.nav_gs_error_deg r)
          else ap_raw_data.nav_gs_error_deg known),
       ap_raw_data.flight_guidance_xtk_nmi = remember (ap_raw_data.flight_guidance_xtk_nmi known) (ap_raw_data.flight_guidance_xtk_nmi r),
       ap_raw_data.flight_guidance_tae_deg = remember (ap_raw_data.flight_guidance_tae_deg known) (ap_raw_data.flight_guidance_tae_deg r),
       ap_raw_data.flight_guidance_phi_deg = remember (ap_raw_data.flight_guidance_phi_deg known) (ap_raw_data.flight_guidance_phi_deg r),
       ap_raw_data.flight_phase = remember (ap_raw_data.flight_phase known) (ap_raw_data.flight_phase r),
       ap_raw_data.V2_kn = remember (ap_raw_data.V2_kn known) (ap_raw_data.V2_kn r),
       ap_raw_data.VAPP_kn = remember (ap_raw_data.VAPP_kn known) (ap_raw_data.VAPP_kn r),
       ap_raw_data.VLS_kn = remember (ap_raw_data.VLS_kn known) (ap_raw_data.VLS_kn r),
       ap_raw_data.VMAX_kn = remember (ap_raw_data.VMAX_kn known) (ap_raw_data.VMAX_kn r),
       ap_raw_data.is_flight_plan_available = ap_raw_data.is_flight_plan_available r,
       ap_raw_data.altitude_constraint_ft = remember (ap_raw_data.altitude_constraint_ft known) (ap_raw_data.altitude_constraint_ft r),
       ap_raw_data.thrust_reduction_altitude = remember (ap_raw_data.thrust_reduction_altitude known) (ap_raw_data.thrust_reduction_altitude r),
       ap_raw_data.thrust_reduction_altitude_go_around = remember (ap_raw_data.thrust_reduction_altitude_go_around known) (ap_raw_data.thrust_reduction_altitude_go_around r),
       ap_raw_data.acceleration_altitude = remember (ap_raw_data.acceleration_altitude known) (ap_raw_data.acceleration_altitude r),
       ap_raw_data.acceleration_altitude_engine_out = remember (ap_raw_data.acceleration_altitude_engine_out known) (ap_raw_data.acceleration_altitude_engine_out r),
       ap_raw_data.acceleration_altitude_go_around = remember (ap_raw_data.acceleration_altitude_go_around known) (ap_raw_data.acceleration_altitude_go_around r),
       ap_raw_data.acceleration_altitude_go_around_engine_out = remember (ap_raw_data.acceleration_altitude_go_around_engine_out known) (ap_raw_data.acceleration_altitude_go_around_engine_out r),
       ap_raw_data.cruise_altitude = remember (ap_raw_data.cruise_altitude known) (ap_raw_data.cruise_altitude r),
       ap_raw_data.gear_strut_compression_1 = remember (ap_raw_data.gear_strut_compression_1 known) (ap_raw_data.gear_strut_compression_1 r),
       ap_raw_data.gear_strut_compression_2 = remember (ap_raw_data.gear_strut_compression_2 known) (ap_raw_data.gear_strut_compression_2 r),
       ap_raw_data.zeta_pos = remember (ap_raw_data.zeta_pos known) (ap_raw_data.zeta_pos r),
       ap_raw_data.throttle_lever_1_pos = remember (ap_raw_data.throttle_lever_1_pos known) (ap_raw_data.throttle_lever_1_pos r),
       ap_raw_data.throttle_lever_2_pos = remember (ap_raw_data.throttle_lever_2_pos known) (ap_raw_data.throttle_lever_2_pos r),
       ap_raw_data.flaps_handle_index = remember (ap_raw_data.flaps_handle_index known) (ap_raw_data.flaps_handle_index r),
       ap_raw_data.is_engine_operative_1 = ap_raw_data.is_engine_operative_1 r,
       ap_raw_data.is_engine_operative_2 = ap_raw_data.is_engine_operative_2 r
     \<rparr>"

text \<open>
  Modelled from the spec: the cache in which no member has a known-good value, as after a
  reset (5: "clears all internal history").
\<close>

definition nothing_known :: "real option ap_raw_data" where
  "nothing_known =
     \<lparr>
       ap_raw_data.Theta_deg = None,
       ap_raw_data.Phi_deg = None,
       ap_raw_data.q_rad_s = None,
       ap_raw_data.r_rad_s = None,
       ap_raw_data.p_rad_s = None,
       ap_raw_data.V_ias_kn = None,
       ap_raw_data.V_tas_kn = None,
       ap_raw_data.V_mach = None,
       ap_raw_data.V_gnd_kn = None,
       ap_raw_data.alpha_deg = None,
       ap_raw_data.H_ft = None,
       ap_raw_data.H_ind_ft = None,
       ap_raw_data.H_radio_ft = None,
       ap_raw_data.H_dot_ft_min = None,
       ap_raw_data.Psi_magnetic_deg = None,
       ap_raw_data.Psi_magnetic_track_deg = None,
       ap_raw_data.Psi_true_deg = None,
       ap_raw_data.bx_m_s2 = None,
       ap_raw_data.by_m_s2 = None,
       ap_raw_data.bz_m_s2 = None,
       ap_raw_data.nav_valid = False,
       ap_raw_data.nav_loc_deg = None,
       ap_raw_data.nav_gs_deg = None,
       ap_raw_data.nav_dme_valid = None,
       ap_raw_data.nav_dme_nmi = None,
       ap_raw_data.nav_loc_valid = False,
       ap_raw_data.nav_loc_error_deg = None,
       ap_raw_data.nav_gs_valid = False,
       ap_raw_data.nav_gs_error_deg = None,
       ap_raw_data.flight_guidance_xtk_nmi = None,
       ap_raw_data.flight_guidance_tae_deg = None,
       ap_raw_data.flight_guidance_phi_deg = None,
       ap_raw_data.flight_phase = None,
       ap_raw_data.V2_kn = None,
       ap_raw_data.VAPP_kn = None,
       ap_raw_data.VLS_kn = None,
       ap_raw_data.VMAX_kn = None,
       ap_raw_data.is_flight_plan_available = False,
       ap_raw_data.altitude_constraint_ft = None,
       ap_raw_data.thrust_reduction_altitude = None,
       ap_raw_data.thrust_reduction_altitude_go_around = None,
       ap_raw_data.acceleration_altitude = None,
       ap_raw_data.acceleration_altitude_engine_out = None,
       ap_raw_data.acceleration_altitude_go_around = None,
       ap_raw_data.acceleration_altitude_go_around_engine_out = None,
       ap_raw_data.cruise_altitude = None,
       ap_raw_data.gear_strut_compression_1 = None,
       ap_raw_data.gear_strut_compression_2 = None,
       ap_raw_data.zeta_pos = None,
       ap_raw_data.throttle_lever_1_pos = None,
       ap_raw_data.throttle_lever_2_pos = None,
       ap_raw_data.flaps_handle_index = None,
       ap_raw_data.is_engine_operative_1 = False,
       ap_raw_data.is_engine_operative_2 = False
     \<rparr>"

text \<open>
  Modelled from the spec: 4.1 and 7(a), a snapshot with a non-finite member is a
  degraded input ("invalid/non-finite input field -- recovered locally by substitution
  with last known-good or safe default, surfaced as a non-fatal degraded-input event").
  A navigation member whose validity flag is false is not examined: it "is meaningless
  when its validity flag is false and must never be acted upon" (3).
\<close>

definition examined :: "bool \<Rightarrow> sample \<Rightarrow> sample" where
  "examined valid s = (if valid then s else Finite 0)"

definition degraded :: "sample ap_raw_data \<Rightarrow> bool" where
  "degraded r =
     list_ex (\<lambda>s. s = Non_finite)
     [
      ap_raw_data.Theta_deg r, ap_raw_data.Phi_deg r, ap_raw_data.q_rad_s r,
      ap_raw_data.r_rad_s r, ap_raw_data.p_rad_s r, ap_raw_data.V_ias_kn r,
      ap_raw_data.V_tas_kn r, ap_raw_data.V_mach r, ap_raw_data.V_gnd_kn r,
      ap_raw_data.alpha_deg r, ap_raw_data.H_ft r, ap_raw_data.H_ind_ft r,
      ap_raw_data.H_radio_ft r, ap_raw_data.H_dot_ft_min r, ap_raw_data.Psi_magnetic_deg r,
      ap_raw_data.Psi_magnetic_track_deg r, ap_raw_data.Psi_true_deg r, ap_raw_data.bx_m_s2 r,
      ap_raw_data.by_m_s2 r, ap_raw_data.bz_m_s2 r,
      examined (ap_raw_data.nav_valid r \<and> ap_raw_data.nav_loc_valid r) (ap_raw_data.nav_loc_deg r),
      examined (ap_raw_data.nav_valid r \<and> ap_raw_data.nav_gs_valid r) (ap_raw_data.nav_gs_deg r),
      ap_raw_data.nav_dme_valid r,
      examined (ap_raw_data.nav_valid r \<and> sample_set (ap_raw_data.nav_dme_valid r)) (ap_raw_data.nav_dme_nmi r),
      examined (ap_raw_data.nav_valid r \<and> ap_raw_data.nav_loc_valid r) (ap_raw_data.nav_loc_error_deg r),
      examined (ap_raw_data.nav_valid r \<and> ap_raw_data.nav_gs_valid r) (ap_raw_data.nav_gs_error_deg r),
      ap_raw_data.flight_guidance_xtk_nmi r, ap_raw_data.flight_guidance_tae_deg r,
      ap_raw_data.flight_guidance_phi_deg r, ap_raw_data.flight_phase r, ap_raw_data.V2_kn r,
      ap_raw_data.VAPP_kn r, ap_raw_data.VLS_kn r, ap_raw_data.VMAX_kn r,
      ap_raw_data.altitude_constraint_ft r, ap_raw_data.thrust_reduction_altitude r,
      ap_raw_data.thrust_reduction_altitude_go_around r, ap_raw_data.acceleration_altitude r,
      ap_raw_data.acceleration_altitude_engine_out r,
      ap_raw_data.acceleration_altitude_go_around r,
      ap_raw_data.acceleration_altitude_go_around_engine_out r, ap_raw_data.cruise_altitude r,
      ap_raw_data.gear_strut_compression_1 r, ap_raw_data.gear_strut_compression_2 r,
      ap_raw_data.zeta_pos r, ap_raw_data.throttle_lever_1_pos r,
      ap_raw_data.throttle_lever_2_pos r, ap_raw_data.flaps_handle_index r
     ]"

text \<open>
  Modelled from the spec: the unit conversion of 4.1 and 6, "raw input uses
  radians/second, conditioned/output state uses degrees/second".
\<close>

definition rad_to_deg :: "real \<Rightarrow> real" where
  "rad_to_deg x = x * 180 / pi"

text \<open>
  Modelled from the spec: "heading-class wrapped [0,360)". The angle is reduced modulo a
  full turn.
\<close>

definition wrap_360 :: "real \<Rightarrow> real" where
  "wrap_360 x = x - 360 * of_int \<lfloor>x / 360\<rfloor>"

text \<open>
  Modelled from the spec: "attitude-class in [-180,180]". An angle inside the closed
  range is canonical already and is kept; any other is reduced modulo a full turn.
\<close>

definition wrap_180 :: "real \<Rightarrow> real" where
  "wrap_180 x = (if - 180 \<le> x \<and> x \<le> 180 then x else wrap_360 (x + 180) - 180)"

text \<open>
  Modelled from the spec: 4.1, a value "clamped to physically plausible bounds", the
  bounds being a lowest and a highest value.
\<close>

definition clamp_to :: "real \<times> real \<Rightarrow> real \<Rightarrow> real" where
  "clamp_to b x = max (fst b) (min (snd b) x)"

text \<open>
  Modelled from the spec: the conversion of 4.1 on a snapshot whose members are all
  finite, "a conditioned snapshot with all rates converted to a single unit system
  (angular rates normalized to degrees/second regardless of source units), all angles
  wrapped to their canonical range, and all values clamped to physically plausible
  bounds (e.g., speeds \<ge>0, altitude within aircraft service ceiling)".
  \<^item> The three body rates are converted to degrees per second and clamped to their
    plausible bounds.
  \<^item> Attitude goes through \<open>wrap_180\<close> and the heading family through \<open>wrap_360\<close>: the
    canonical range is the bound of these angles.
  \<^item> Every other real-valued quantity is clamped to the plausible bounds of the tuning;
    the speeds (every \<^verbatim>\<open>_kn\<close> member and the Mach number) are kept at or above zero on
    top of that, the altitude and the indicated altitude at or below the ceiling.
  \<^item> \<^verbatim>\<open>nav_dme_valid\<close> is a validity flag held in a number, not a quantity, and is
    passed on like the boolean flags; \<^verbatim>\<open>on_ground\<close> is the status the tuning derives
    from the strut compressions.
  \<^item> The accelerations \<^verbatim>\<open>ax_m_s2\<close>, \<^verbatim>\<open>ay_m_s2\<close>, \<^verbatim>\<open>az_m_s2\<close> are the Derivative
    Estimator's and are zero until it has run.
\<close>

definition convert :: "('st, 'lat, 'ver) tuning \<Rightarrow> real ap_raw_data \<Rightarrow> ap_data" where
  "convert cfg r =
     \<lparr>
       Theta_deg = wrap_180 (ap_raw_data.Theta_deg r),
       Phi_deg = wrap_180 (ap_raw_data.Phi_deg r),
       qk_deg_s = clamp_to (plausible cfg ''qk_deg_s'') (rad_to_deg (ap_raw_data.q_rad_s r)),
       rk_deg_s = clamp_to (plausible cfg ''rk_deg_s'') (rad_to_deg (ap_raw_data.r_rad_s r)),
       pk_deg_s = clamp_to (plausible cfg ''pk_deg_s'') (rad_to_deg (ap_raw_data.p_rad_s r)),
       V_ias_kn = max 0 (clamp_to (plausible cfg ''V_ias_kn'') (ap_raw_data.V_ias_kn r)),
       V_tas_kn = max 0 (clamp_to (plausible cfg ''V_tas_kn'') (ap_raw_data.V_tas_kn r)),
       V_mach = max 0 (clamp_to (plausible cfg ''V_mach'') (ap_raw_data.V_mach r)),
       V_gnd_kn = max 0 (clamp_to (plausible cfg ''V_gnd_kn'') (ap_raw_data.V_gnd_kn r)),
       alpha_deg = clamp_to (plausible cfg ''alpha_deg'') (ap_raw_data.alpha_deg r),
       H_ft = min (ceiling_ft cfg) (clamp_to (plausible cfg ''H_ft'') (ap_raw_data.H_ft r)),
       H_ind_ft = min (ceiling_ft cfg) (clamp_to (plausible cfg ''H_ind_ft'') (ap_raw_data.H_ind_ft r)),
       H_radio_ft = clamp_to (plausible cfg ''H_radio_ft'') (ap_raw_data.H_radio_ft r),
       H_dot_ft_min = clamp_to (plausible cfg ''H_dot_ft_min'') (ap_raw_data.H_dot_ft_min r),
       Psi_magnetic_deg = wrap_360 (ap_raw_data.Psi_magnetic_deg r),
       Psi_magnetic_track_deg = wrap_360 (ap_raw_data.Psi_magnetic_track_deg r),
       Psi_true_deg = wrap_360 (ap_raw_data.Psi_true_deg r),
       ax_m_s2 = 0,
       ay_m_s2 = 0,
       az_m_s2 = 0,
       bx_m_s2 = clamp_to (plausible cfg ''bx_m_s2'') (ap_raw_data.bx_m_s2 r),
       by_m_s2 = clamp_to (plausible cfg ''by_m_s2'') (ap_raw_data.by_m_s2 r),
       bz_m_s2 = clamp_to (plausible cfg ''bz_m_s2'') (ap_raw_data.bz_m_s2 r),
       nav_valid = ap_raw_data.nav_valid r,
       nav_loc_deg = clamp_to (plausible cfg ''nav_loc_deg'') (ap_raw_data.nav_loc_deg r),
       nav_gs_deg = clamp_to (plausible cfg ''nav_gs_deg'') (ap_raw_data.nav_gs_deg r),
       nav_dme_valid = ap_raw_data.nav_dme_valid r,
       nav_dme_nmi = clamp_to (plausible cfg ''nav_dme_nmi'') (ap_raw_data.nav_dme_nmi r),
       nav_loc_valid = ap_raw_data.nav_loc_valid r,
       nav_loc_error_deg = clamp_to (plausible cfg ''nav_loc_error_deg'') (ap_raw_data.nav_loc_error_deg r),
       nav_gs_valid = ap_raw_data.nav_gs_valid r,
       nav_gs_error_deg = clamp_to (plausible cfg ''nav_gs_error_deg'') (ap_raw_data.nav_gs_error_deg r),
       flight_guidance_xtk_nmi = clamp_to (plausible cfg ''flight_guidance_xtk_nmi'') (ap_raw_data.flight_guidance_xtk_nmi r),
       flight_guidance_tae_deg = clamp_to (plausible cfg ''flight_guidance_tae_deg'') (ap_raw_data.flight_guidance_tae_deg r),
       flight_guidance_phi_deg = clamp_to (plausible cfg ''flight_guidance_phi_deg'') (ap_raw_data.flight_guidance_phi_deg r),
       flight_phase = clamp_to (plausible cfg ''flight_phase'') (ap_raw_data.flight_phase r),
       V2_kn = max 0 (clamp_to (plausible cfg ''V2_kn'') (ap_raw_data.V2_kn r)),
       VAPP_kn = max 0 (clamp_to (plausible cfg ''VAPP_kn'') (ap_raw_data.VAPP_kn r)),
       VLS_kn = max 0 (clamp_to (plausible cfg ''VLS_kn'') (ap_raw_data.VLS_kn r)),
       VMAX_kn = max 0 (clamp_to (plausible cfg ''VMAX_kn'') (ap_raw_data.VMAX_kn r)),
       is_flight_plan_available = ap_raw_data.is_flight_plan_available r,
       altitude_constraint_ft = clamp_to (plausible cfg ''altitude_constraint_ft'') (ap_raw_data.altitude_constraint_ft r),
       thrust_reduction_altitude = clamp_to (plausible cfg ''thrust_reduction_altitude'') (ap_raw_data.thrust_reduction_altitude r),
       thrust_reduction_altitude_go_around = clamp_to (plausible cfg ''thrust_reduction_altitude_go_around'') (ap_raw_data.thrust_reduction_altitude_go_around r),
       acceleration_altitude = clamp_to (plausible cfg ''acceleration_altitude'') (ap_raw_data.acceleration_altitude r),
       acceleration_altitude_engine_out = clamp_to (plausible cfg ''acceleration_altitude_engine_out'') (ap_raw_data.acceleration_altitude_engine_out r),
       acceleration_altitude_go_around = clamp_to (plausible cfg ''acceleration_altitude_go_around'') (ap_raw_data.acceleration_altitude_go_around r),
       acceleration_altitude_go_around_engine_out = clamp_to (plausible cfg ''acceleration_altitude_go_around_engine_out'') (ap_raw_data.acceleration_altitude_go_around_engine_out r),
       cruise_altitude = clamp_to (plausible cfg ''cruise_altitude'') (ap_raw_data.cruise_altitude r),
       on_ground = ground_contact cfg (gear_strut_compression_1 r) (gear_strut_compression_2 r),
       zeta_deg = clamp_to (plausible cfg ''zeta_deg'') (rudder_deg cfg (zeta_pos r)),
       throttle_lever_1_pos = clamp_to (plausible cfg ''throttle_lever_1_pos'') (ap_raw_data.throttle_lever_1_pos r),
       throttle_lever_2_pos = clamp_to (plausible cfg ''throttle_lever_2_pos'') (ap_raw_data.throttle_lever_2_pos r),
       flaps_handle_index = clamp_to (plausible cfg ''flaps_handle_index'') (ap_raw_data.flaps_handle_index r),
       is_engine_operative_1 = ap_raw_data.is_engine_operative_1 r,
       is_engine_operative_2 = ap_raw_data.is_engine_operative_2 r
     \<rparr>"

text \<open>
  Modelled from the spec: the Input Conditioner of 4.1. From the cache, the snapshot the
  engine currently holds and the raw snapshot it gives the conditioned snapshot, the
  cache as updated, and whether the input was degraded.
\<close>

definition input_conditioner ::
  "('st, 'lat, 'ver) tuning \<Rightarrow> real option ap_raw_data \<Rightarrow> ap_data \<Rightarrow> sample ap_raw_data
     \<Rightarrow> ap_data \<times> real option ap_raw_data \<times> bool" where
  "input_conditioner cfg known held r =
     (convert cfg (substitute cfg known held r), refresh known r, degraded r)"

subsection \<open>Validity gates\<close>

text \<open>
  Modelled from the spec: \<^verbatim>\<open>nav_dme_valid\<close>, \<^verbatim>\<open>enabled_AP1\<close> and \<^verbatim>\<open>enabled_AP2\<close> are
  spoken of as true or false and declared \<^verbatim>\<open>real_T\<close>. A number is read as a condition
  the way C reads it: true when it is not zero.
\<close>

definition flag_set :: "real \<Rightarrow> bool" where
  "flag_set x = (x \<noteq> 0)"

text \<open>
  Modelled from the spec: 3 and 6, "a deviation field is meaningless when its validity
  flag is false and must never be acted upon", "consumers must check validity before
  reading the deviation". A gated member reads as zero while a flag it goes with is
  false.
\<close>

definition gate :: "bool \<Rightarrow> real \<Rightarrow> real" where
  "gate valid x = (if valid then x else 0)"

text \<open>
  Modelled from the spec: the conditioned snapshot as the laws read it, every gated
  navigation member behind its flags (3, 6). All consumers inside the engine (the
  estimator, the arbiters, the supervisor, the synthesizer) are given the snapshot in
  this form and in no other.
\<close>

definition checked :: "ap_data \<Rightarrow> ap_data" where
  "checked d =
     d\<lparr>nav_loc_deg := gate (nav_valid d \<and> nav_loc_valid d) (nav_loc_deg d),
       nav_gs_deg := gate (nav_valid d \<and> nav_gs_valid d) (nav_gs_deg d),
       nav_dme_nmi := gate (nav_valid d \<and> flag_set (nav_dme_valid d)) (nav_dme_nmi d),
       nav_loc_error_deg := gate (nav_valid d \<and> nav_loc_valid d) (nav_loc_error_deg d),
       nav_gs_error_deg := gate (nav_valid d \<and> nav_gs_valid d) (nav_gs_error_deg d)\<rparr>"

subsection \<open>Derivative Estimator\<close>

text \<open>
  Modelled from the spec: 4.2, "each call returns body-axis acceleration estimates"; the
  estimates take their place in the conditioned snapshot ("conditioned SensorState (with
  derived accelerations)", 6). The estimate itself is tuning data.
\<close>

definition with_accelerations :: "real \<times> real \<times> real \<Rightarrow> ap_data \<Rightarrow> ap_data" where
  "with_accelerations a d =
     (case a of (ax, ay, az) \<Rightarrow> d\<lparr>ax_m_s2 := ax, ay_m_s2 := ay, az_m_s2 := az\<rparr>)"

subsection \<open>Speed Protection Supervisor\<close>

text \<open>
  Modelled from the spec: 4.5, "when \<^verbatim>\<open>speed_protection_mode\<close> is true, vertical-law
  pitch/vertical-speed targets are clamped"; the supervisor "only clamps the numeric
  target passed downstream, and reports whether clamping occurred". It has no state.
\<close>

definition speed_protection_supervisor ::
  "('st, 'lat, 'ver) tuning \<Rightarrow> ap_raw_laws_input \<Rightarrow> ap_data \<Rightarrow> 'ver \<Rightarrow> 'ver \<times> bool" where
  "speed_protection_supervisor cfg g d ver =
     (if speed_protection_mode g then protect_speed cfg g d ver else (ver, False))"

subsection \<open>Engagement and Reversion Handler\<close>

text \<open>
  Modelled from the spec: 4.7, engagement is "an explicit state (\<^verbatim>\<open>DISCONNECTED\<close>,
  \<^verbatim>\<open>CONNECTED\<close>)".
\<close>

datatype engagement = DISCONNECTED | CONNECTED

text \<open>
  Modelled from the spec: the two redundant autopilot channels of the glossary.
\<close>

datatype ap_channel = AP1 | AP2

text \<open>
  Modelled from the spec: the events of 4.1, 4.3, 4.4 and 4.7, the degraded input, a
  mode reversion raised by the lateral arbiter, one raised by the vertical arbiter, and
  the reversion the handler issues for a dual engagement.
\<close>

datatype event = Degraded_input | Lateral_reversion | Vertical_reversion | Engagement_reversion

text \<open>
  Modelled from the spec: the handler's state of 4.7, the engagement of the flight
  director and of the autopilot, the channel that is honoured, and the last values of
  the two edge-triggered requests.
\<close>

record engagement_state =
  fd_engagement :: engagement
  ap_engagement :: engagement
  active_channel :: "ap_channel option"
  fd_connect_held :: bool
  fd_disconnect_held :: bool

text \<open>
  Modelled from the spec: 4.6, "exactly one of \<^verbatim>\<open>enabled_AP1\<close>/\<^verbatim>\<open>enabled_AP2\<close> is
  true".
\<close>

definition exactly_one_ap :: "ap_raw_laws_input \<Rightarrow> bool" where
  "exactly_one_ap g = (flag_set (enabled_AP1 g) \<noteq> flag_set (enabled_AP2 g))"

text \<open>
  Modelled from the spec: 4.7, "\<^verbatim>\<open>FD_connect\<close>/\<^verbatim>\<open>FD_disconnect\<close> are edge-triggered
  requests". A request counts on the tick it turns true. Engagement of the flight
  director is requested on a tick when, the requests of the tick served, it is to be
  connected: no disconnect is requested, and a connect is requested or the flight
  director is connected already. The specification does not rank the two requests; here
  a disconnect is served before a connect.
\<close>

definition fd_requested :: "engagement_state \<Rightarrow> ap_raw_laws_input \<Rightarrow> bool" where
  "fd_requested e g =
     (\<not> (FD_disconnect g \<and> \<not> fd_disconnect_held e) \<and>
      ((FD_connect g \<and> \<not> fd_connect_held e) \<or> fd_engagement e = CONNECTED))"

text \<open>
  Modelled from the spec: 4.7, "simultaneous \<^verbatim>\<open>enabled_AP1\<close> and \<^verbatim>\<open>enabled_AP2\<close> is an
  invariant violation -- the handler resolves it by honoring AP1 and issuing a reversion
  event", and the glossary, "at most one commands actuation at a time". The handler
  serves the flight-director requests, names the one channel that is honoured (AP1
  when it is enabled, whether or not AP2 is; AP2 when it alone is enabled) and issues
  the reversion event when both are enabled.
\<close>

definition engagement_handler ::
  "engagement_state \<Rightarrow> ap_raw_laws_input \<Rightarrow> engagement_state \<times> event list" where
  "engagement_handler e g =
     (let ap1 = flag_set (enabled_AP1 g);
          ap2 = flag_set (enabled_AP2 g)
      in (\<lparr>fd_engagement = (if fd_requested e g then CONNECTED else DISCONNECTED),
           ap_engagement = (if ap1 \<or> ap2 then CONNECTED else DISCONNECTED),
           active_channel = (if ap1 then Some AP1 else if ap2 then Some AP2 else None),
           fd_connect_held = FD_connect g,
           fd_disconnect_held = FD_disconnect g\<rparr>,
          if ap1 \<and> ap2 then [Engagement_reversion] else []))"

subsection \<open>Command Synthesizer\<close>

text \<open>
  Modelled from the spec: what the laws read of the guidance command. 4.6 wants the
  flight-director output "independent of autopilot state", and engagement is the
  handler's business (4.7): the arbiters, the supervisor and the synthesizer are given
  the mode selectors, targets and mode flags, and the two engagement flags blanked.
\<close>

definition selectors :: "ap_raw_laws_input \<Rightarrow> ap_raw_laws_input" where
  "selectors g = g\<lparr>enabled_AP1 := 0, enabled_AP2 := 0\<rparr>"

text \<open>
  Modelled from the spec: the synthesis of 4.6. One command is computed from the active
  targets by the tracking law, for both outputs ("computed identically"), and the
  localizer bank term beside it.
\<close>

definition command_synthesizer ::
  "('st, 'lat, 'ver) tuning \<Rightarrow> 'lat \<Rightarrow> 'ver \<Rightarrow> ap_data \<Rightarrow> ap_raw_output_command \<times> real" where
  "command_synthesizer cfg lat ver d = (track cfg lat ver d, loc_bank cfg d)"

text \<open>
  Modelled from the spec: the two gates of 4.6 and the design notes ("one synthesis
  function called twice with different gating predicates"), applied where the output
  snapshot is put together, downstream of the handler as in the control flow of 2. The
  flight-director output carries the command when engagement of the flight director is
  requested. The autopilot output carries it, and \<^verbatim>\<open>ap_on\<close> is 1, when the handler
  honours a channel: with the two flags not both true, as 3 requires of the guidance
  command, that is when exactly one of them is true; with both true it is AP1 (4.7).
  \<^verbatim>\<open>Phi_loc_c\<close> is "exposed unconditionally". An output whose gate is closed carries
  the idle command of the tuning, and \<^verbatim>\<open>ap_on\<close> is then 0.
\<close>

definition propagate ::
  "('st, 'lat, 'ver) tuning \<Rightarrow> engagement_state \<Rightarrow> ap_raw_output_command \<times> real
     \<Rightarrow> ap_raw_output" where
  "propagate cfg e s =
     (case s of
        (cmd, loc) \<Rightarrow>
          \<lparr>ap_on = (if ap_engagement e = CONNECTED then 1 else 0),
           Phi_loc_c = loc,
           flight_director = (if fd_engagement e = CONNECTED then cmd else idle cfg),
           autopilot = (if active_channel e = None then idle cfg else cmd)\<rparr>)"

subsection \<open>The engine context and the step\<close>

text \<open>
  Modelled from the spec: the engine context of 3 and 5, "all cross-tick state ... held
  in one explicit, exclusively-owned engine context passed into and returned from each
  step": the state of the laws, the engagement state, the conditioner's cache of
  known-good values, and the last values of everything the engine computes (the
  conditioned snapshot and the output command), which a no-op tick holds.
\<close>

record 'st engine_context =
  laws_state :: 'st
  engagement :: engagement_state
  last_known_good :: "real option ap_raw_data"
  last_data :: ap_data
  last_output :: ap_raw_output

text \<open>
  Modelled from the spec: the state after a reset, 4.2 "reset clears history to zero" and
  5 "clears all internal history and returns the context to its initial state". Nothing
  is engaged, nothing has been commanded, the held snapshot is all zero.
\<close>

definition zero_data :: ap_data where
  "zero_data =
     \<lparr>
       Theta_deg = 0,
       Phi_deg = 0,
       qk_deg_s = 0,
       rk_deg_s = 0,
       pk_deg_s = 0,
       V_ias_kn = 0,
       V_tas_kn = 0,
       V_mach = 0,
       V_gnd_kn = 0,
       alpha_deg = 0,
       H_ft = 0,
       H_ind_ft = 0,
       H_radio_ft = 0,
       H_dot_ft_min = 0,
       Psi_magnetic_deg = 0,
       Psi_magnetic_track_deg = 0,
       Psi_true_deg = 0,
       ax_m_s2 = 0,
       ay_m_s2 = 0,
       az_m_s2 = 0,
       bx_m_s2 = 0,
       by_m_s2 = 0,
       bz_m_s2 = 0,
       nav_valid = False,
       nav_loc_deg = 0,
       nav_gs_deg = 0,
       nav_dme_valid = 0,
       nav_dme_nmi = 0,
       nav_loc_valid = False,
       nav_loc_error_deg = 0,
       nav_gs_valid = False,
       nav_gs_error_deg = 0,
       flight_guidance_xtk_nmi = 0,
       flight_guidance_tae_deg = 0,
       flight_guidance_phi_deg = 0,
       flight_phase = 0,
       V2_kn = 0,
       VAPP_kn = 0,
       VLS_kn = 0,
       VMAX_kn = 0,
       is_flight_plan_available = False,
       altitude_constraint_ft = 0,
       thrust_reduction_altitude = 0,
       thrust_reduction_altitude_go_around = 0,
       acceleration_altitude = 0,
       acceleration_altitude_engine_out = 0,
       acceleration_altitude_go_around = 0,
       acceleration_altitude_go_around_engine_out = 0,
       cruise_altitude = 0,
       on_ground = 0,
       zeta_deg = 0,
       throttle_lever_1_pos = 0,
       throttle_lever_2_pos = 0,
       flaps_handle_index = 0,
       is_engine_operative_1 = False,
       is_engine_operative_2 = False
     \<rparr>"

text \<open>
  Modelled from the spec: the initial context, with the laws in the initial state of the
  tuning, both engagements \<^verbatim>\<open>DISCONNECTED\<close>, no known-good value and both gated outputs
  idle.
\<close>

definition initial_context :: "('st, 'lat, 'ver) tuning \<Rightarrow> 'st engine_context" where
  "initial_context cfg =
     \<lparr>laws_state = initial_laws_state cfg,
      engagement =
        \<lparr>fd_engagement = DISCONNECTED, ap_engagement = DISCONNECTED, active_channel = None,
         fd_connect_held = False, fd_disconnect_held = False\<rparr>,
      last_known_good = nothing_known,
      last_data = zero_data,
      last_output =
        \<lparr>ap_on = 0, Phi_loc_c = 0, flight_director = idle cfg, autopilot = idle cfg\<rparr>\<rparr>"

text \<open>
  Modelled from the spec: the reset operation of 5, which "returns the context to its
  initial state" whatever the context was.
\<close>

definition reset :: "('st, 'lat, 'ver) tuning \<Rightarrow> 'st engine_context \<Rightarrow> 'st engine_context" where
  "reset cfg c = initial_context cfg"

text \<open>
  Modelled from the spec: the step of 2 and 5, "Time Base \<rightarrow> Input Conditioner \<rightarrow>
  Derivative Estimator \<rightarrow> {Lateral Arbiter, Vertical Arbiter} \<rightarrow> Speed Protection
  Supervisor \<rightarrow> Command Synthesizer \<rightarrow> Engagement Handler \<rightarrow> output snapshot", with the
  output aggregate of 6, "TimeBase (echoed), conditioned SensorState (with derived
  accelerations), GuidanceCommand (echoed), OutputCommand", and the no-op tick of 7,
  "non-positive \<^verbatim>\<open>dt\<close> -- treated as a no-op tick (state and outputs held at previous
  values)". The step returns the output aggregate, the events of the tick and the next
  context. On a no-op tick the two echoed parts follow the input, as 6 says of every
  tick, and what the engine computes is held. The supervisor's report that it clamped
  has no place in the output aggregate and is not passed on.
\<close>

definition step ::
  "('st, 'lat, 'ver) tuning \<Rightarrow> 'st engine_context \<Rightarrow> ap_laws_input
     \<Rightarrow> (ap_laws_output \<times> event list) \<times> 'st engine_context" where
  "step cfg c u =
     (let t = ap_laws_input.time u; g = ap_laws_input.input u
      in if dt t \<le> 0
         then ((\<lparr>time = t, data = last_data c, input = g, output' = last_output c\<rparr>, []), c)
         else
           (let (d0, known, degraded_input) =
                  input_conditioner cfg (last_known_good c) (last_data c) (ap_laws_input.data u);
                (acc, s1) = estimate cfg (laws_state c) t (checked d0);
                d = with_accelerations acc d0;
                ((lat, lat_reverted), s2) = arbitrate_lateral cfg s1 t (checked d) (selectors g);
                ((ver, ver_reverted), s3) = arbitrate_vertical cfg s2 t (checked d) (selectors g);
                (ver_safe, clamped) =
                  speed_protection_supervisor cfg (selectors g) (checked d) ver;
                synthesized = command_synthesizer cfg lat ver_safe (checked d);
                (e, dual) = engagement_handler (engagement c) g;
                out = propagate cfg e synthesized
            in ((\<lparr>time = t, data = d, input = g, output' = out\<rparr>,
                 (if degraded_input then [Degraded_input] else [])
                   @ (if lat_reverted then [Lateral_reversion] else [])
                   @ (if ver_reverted then [Vertical_reversion] else []) @ dual),
                \<lparr>laws_state = s3, engagement = e, last_known_good = known, last_data = d,
                 last_output = out\<rparr>)))"

text \<open>
  Modelled from the spec: a run of the engine, one step per input, each step on the
  context the one before returned (5).
\<close>

fun run ::
  "('st, 'lat, 'ver) tuning \<Rightarrow> 'st engine_context \<Rightarrow> ap_laws_input list
     \<Rightarrow> (ap_laws_output \<times> event list) list \<times> 'st engine_context" where
  "run cfg c [] = ([], c)"
| "run cfg c (u # us) =
     (case step cfg c u of
        (r, c') \<Rightarrow> (case run cfg c' us of (rs, c'') \<Rightarrow> (r # rs, c'')))"


text \<open>
  Modelled from the spec: the ranges of 3, 6 and 8, "heading/track fields are always
  emitted normalized to [0,360); attitude fields to [-180,180]".
\<close>

definition heading_range :: "real \<Rightarrow> bool" where
  "heading_range x = (0 \<le> x \<and> x < 360)"

text \<open>
  Modelled from the spec: the attitude range of 3 and 8, closed at both ends.
\<close>

definition attitude_range :: "real \<Rightarrow> bool" where
  "attitude_range x = (- 180 \<le> x \<and> x \<le> 180)"

text \<open>
  Modelled from the spec: the heading and track members (\<^verbatim>\<open>Psi_*_deg\<close>) and the attitude
  members (\<^verbatim>\<open>Theta_deg\<close>, \<^verbatim>\<open>Phi_deg\<close>) that 3 names, each in its range.
\<close>

definition angles_normalised :: "ap_data \<Rightarrow> bool" where
  "angles_normalised d =
     (heading_range (Psi_magnetic_deg d) \<and> heading_range (Psi_magnetic_track_deg d) \<and>
      heading_range (Psi_true_deg d) \<and> attitude_range (Theta_deg d) \<and>
      attitude_range (Phi_deg d))"

subsection \<open>Inputs that differ in one respect\<close>

text \<open>
  Two ways of changing an input, used to compare two ticks: the five gated navigation
  members of the raw snapshot set to given readings, finite or not, and the two
  engagement flags set to given values.
\<close>

definition with_nav_readings ::
  "sample \<times> sample \<times> sample \<times> sample \<times> sample \<Rightarrow> ap_laws_input
     \<Rightarrow> ap_laws_input" where
  "with_nav_readings v u =
     (case v of
        (loc, gs, dme, loc_error, gs_error) \<Rightarrow>
          u\<lparr>ap_laws_input.data :=
              (ap_laws_input.data u)
                \<lparr>ap_raw_data.nav_loc_deg := loc,
                 ap_raw_data.nav_gs_deg := gs,
                 ap_raw_data.nav_dme_nmi := dme,
                 ap_raw_data.nav_loc_error_deg := loc_error,
                 ap_raw_data.nav_gs_error_deg := gs_error\<rparr>\<rparr>)"

definition with_ap_flags :: "real \<Rightarrow> real \<Rightarrow> ap_laws_input \<Rightarrow> ap_laws_input" where
  "with_ap_flags a b u =
     u\<lparr>ap_laws_input.input := (ap_laws_input.input u)\<lparr>enabled_AP1 := a, enabled_AP2 := b\<rparr>\<rparr>"


section \<open>Example inputs\<close>

text \<open>
  A concrete tuning and concrete inputs, on which the statements below are evaluated.
  They are examples, not part of the engine: the laws of \<open>example_tuning\<close> pass the
  selected heading and vertical speed straight through, its state counts the calls of
  the estimator, the body rates are held within 100 degrees per second and every other
  quantity within a million. The raw snapshot has attitude and heading values outside
  their canonical range, a roll rate of half a turn per second, a negative ground speed,
  an indicated altitude above the ceiling, a localizer deviation of 3 degrees with every
  boolean validity flag false, and a \<^verbatim>\<open>nav_dme_valid\<close> that is neither 0 nor 1; the
  guidance command has both autopilot channels enabled.
\<close>

definition example_tuning :: "(nat, real, real) tuning" where
  "example_tuning =
     \<lparr>ceiling_ft = 41000,
      plausible =
        (\<lambda>n. if n = ''qk_deg_s'' \<or> n = ''rk_deg_s'' \<or> n = ''pk_deg_s''
              then (- 100, 100) else (- 1000000, 1000000)),
      fallback = (\<lambda>n. 0),
      ground_contact = (\<lambda>a b. if 0 < a \<or> 0 < b then 1 else 0),
      rudder_deg = (\<lambda>z. 30 * z),
      idle = \<lparr>Theta_c_deg = 0, Phi_c_deg = 0, Beta_c_deg = 0\<rparr>,
      initial_laws_state = 0,
      estimate = (\<lambda>s t d. ((1, 2, 3), Suc s)),
      arbitrate_lateral = (\<lambda>s t d g. ((Psi_c_deg g, False), s)),
      arbitrate_vertical = (\<lambda>s t d g. ((H_dot_c_fpm g, False), s)),
      protect_speed = (\<lambda>g d v. (min v 1000, 1000 < v)),
      track = (\<lambda>lat ver d. \<lparr>Theta_c_deg = ver / 100, Phi_c_deg = lat / 10, Beta_c_deg = 0\<rparr>),
      loc_bank = (\<lambda>d. nav_loc_error_deg d)\<rparr>"

definition example_raw :: "sample ap_raw_data" where
  "example_raw =
     \<lparr>
      ap_raw_data.Theta_deg = Finite 190,
      ap_raw_data.Phi_deg = Finite (- 200),
      ap_raw_data.q_rad_s = Finite (pi / 180),
      ap_raw_data.r_rad_s = Finite 0,
      ap_raw_data.p_rad_s = Finite (- pi),
      ap_raw_data.V_ias_kn = Finite 250,
      ap_raw_data.V_tas_kn = Finite 300,
      ap_raw_data.V_mach = Finite (1 / 2),
      ap_raw_data.V_gnd_kn = Finite (- 5),
      ap_raw_data.alpha_deg = Finite 0,
      ap_raw_data.H_ft = Finite 12000,
      ap_raw_data.H_ind_ft = Finite 50000,
      ap_raw_data.H_radio_ft = Finite 0,
      ap_raw_data.H_dot_ft_min = Finite 0,
      ap_raw_data.Psi_magnetic_deg = Finite 370,
      ap_raw_data.Psi_magnetic_track_deg = Finite (- 10),
      ap_raw_data.Psi_true_deg = Finite 360,
      ap_raw_data.bx_m_s2 = Finite 0,
      ap_raw_data.by_m_s2 = Finite 0,
      ap_raw_data.bz_m_s2 = Finite 0,
      ap_raw_data.nav_valid = False,
      ap_raw_data.nav_loc_deg = Finite 0,
      ap_raw_data.nav_gs_deg = Finite 0,
      ap_raw_data.nav_dme_valid = Finite (5 / 2),
      ap_raw_data.nav_dme_nmi = Finite 0,
      ap_raw_data.nav_loc_valid = False,
      ap_raw_data.nav_loc_error_deg = Finite 3,
      ap_raw_data.nav_gs_valid = False,
      ap_raw_data.nav_gs_error_deg = Finite 0,
      ap_raw_data.flight_guidance_xtk_nmi = Finite 0,
      ap_raw_data.flight_guidance_tae_deg = Finite 0,
      ap_raw_data.flight_guidance_phi_deg = Finite 0,
      ap_raw_data.flight_phase = Finite 0,
      ap_raw_data.V2_kn = Finite 0,
      ap_raw_data.VAPP_kn = Finite 0,
      ap_raw_data.VLS_kn = Finite 130,
      ap_raw_data.VMAX_kn = Finite 350,
      ap_raw_data.is_flight_plan_available = False,
      ap_raw_data.altitude_constraint_ft = Finite 0,
      ap_raw_data.thrust_reduction_altitude = Finite 0,
      ap_raw_data.thrust_reduction_altitude_go_around = Finite 0,
      ap_raw_data.acceleration_altitude = Finite 0,
      ap_raw_data.acceleration_altitude_engine_out = Finite 0,
      ap_raw_data.acceleration_altitude_go_around = Finite 0,
      ap_raw_data.acceleration_altitude_go_around_engine_out = Finite 0,
      ap_raw_data.cruise_altitude = Finite 0,
      ap_raw_data.gear_strut_compression_1 = Finite 0,
      ap_raw_data.gear_strut_compression_2 = Finite 0,
      ap_raw_data.zeta_pos = Finite 0,
      ap_raw_data.throttle_lever_1_pos = Finite 0,
      ap_raw_data.throttle_lever_2_pos = Finite 0,
      ap_raw_data.flaps_handle_index = Finite 0,
      ap_raw_data.is_engine_operative_1 = False,
      ap_raw_data.is_engine_operative_2 = False
     \<rparr>"

definition example_guidance :: ap_raw_laws_input where
  "example_guidance =
     \<lparr>
      enabled_AP1 = 1,
      enabled_AP2 = 1,
      lateral_law = 0,
      lateral_mode = 0,
      lateral_mode_armed = 0,
      vertical_law = 0,
      vertical_mode = 0,
      vertical_mode_armed = 0,
      mode_reversion_lateral = 0,
      mode_reversion_vertical = 0,
      mode_reversion_TRK_FPA = False,
      mode_reversion_triple_click = False,
      mode_reversion_fma = False,
      speed_protection_mode = False,
      autothrust_mode = 0,
      Psi_c_deg = 90,
      H_c_ft = 0,
      H_dot_c_fpm = 1500,
      FPA_c_deg = 0,
      V_c_kn = 0,
      ALT_soft_mode_active = False,
      ALT_cruise_mode_active = False,
      EXPED_mode_active = False,
      FD_disconnect = False,
      FD_connect = False
     \<rparr>"

definition example_ap1_only :: ap_raw_laws_input where
  "example_ap1_only = example_guidance\<lparr>enabled_AP2 := 0\<rparr>"

definition example_no_ap :: ap_raw_laws_input where
  "example_no_ap = example_guidance\<lparr>enabled_AP1 := 0, enabled_AP2 := 0\<rparr>"

definition example_tick :: "real \<Rightarrow> ap_raw_laws_input \<Rightarrow> ap_laws_input" where
  "example_tick step_time g =
     \<lparr>ap_laws_input.time = \<lparr>dt = step_time, simulation_time = 10\<rparr>,
      ap_laws_input.data = example_raw,
      ap_laws_input.input = g\<rparr>"

definition example_nav_valid :: ap_laws_input where
  "example_nav_valid =
     (example_tick 1 example_guidance)
       \<lparr>ap_laws_input.data :=
          example_raw\<lparr>ap_raw_data.nav_valid := True, ap_raw_data.nav_loc_valid := True\<rparr>\<rparr>"


definition example_fd_connect :: ap_laws_input where
  "example_fd_connect = example_tick 1 (example_no_ap\<lparr>FD_connect := True\<rparr>)"

section \<open>Facts about the components\<close>

lemma wrap_360_range: "0 \<le> wrap_360 x \<and> wrap_360 x < 360"
proof -
  have "of_int \<lfloor>x / 360\<rfloor> \<le> x / 360"
    by (rule of_int_floor_le)
  moreover have "x / 360 < of_int \<lfloor>x / 360\<rfloor> + 1"
    by linarith
  ultimately show ?thesis
    unfolding wrap_360_def by (simp add: field_simps)
qed

lemma wrap_180_range: "- 180 \<le> wrap_180 x \<and> wrap_180 x \<le> 180"
  using wrap_360_range [of "x + 180"] by (simp add: wrap_180_def)

lemma convert_angles: "angles_normalised (convert cfg r)"
  by (simp add: angles_normalised_def convert_def heading_range_def
      attitude_range_def wrap_360_range wrap_180_range)

lemma conditioner_angles: "angles_normalised (fst (input_conditioner cfg known held r))"
  by (simp add: input_conditioner_def convert_angles)

lemma with_accelerations_angles:
  "angles_normalised (with_accelerations a d) = angles_normalised d"
  by (cases a) (simp add: with_accelerations_def angles_normalised_def)

lemma zero_data_angles: "angles_normalised zero_data"
  by (simp add: angles_normalised_def zero_data_def heading_range_def attitude_range_def)

lemma accelerations_only_in_conditioned:
  "filter only_in_conditioned (acceleration_fields ap_data_fields) =
     [''ax_m_s2'', ''ay_m_s2'', ''az_m_s2'']"
  by code_simp

text \<open>
  The estimator's three values are the accelerations of the snapshot, and nothing else
  of the snapshot changes.
\<close>

lemma accelerations_set:
  "(ax_m_s2 (with_accelerations a d), ay_m_s2 (with_accelerations a d),
    az_m_s2 (with_accelerations a d)) = a"
  by (cases a) (simp add: with_accelerations_def)

lemma conditioned_without_accelerations:
  "(with_accelerations a (fst (input_conditioner cfg known held r)))
      \<lparr>ax_m_s2 := 0, ay_m_s2 := 0, az_m_s2 := 0\<rparr> =
    fst (input_conditioner cfg known held r)"
  by (cases a) (simp add: with_accelerations_def input_conditioner_def convert_def)


text \<open>The conditioned rates, and what clamping does to a rate.\<close>

lemma conditioned_rates:
  "qk_deg_s (fst (input_conditioner cfg known held r)) =
     clamp_to (plausible cfg ''qk_deg_s'')
       (known_good (ap_raw_data.q_rad_s known) 0 (ap_raw_data.q_rad_s r) * 180 / pi) \<and>
   rk_deg_s (fst (input_conditioner cfg known held r)) =
     clamp_to (plausible cfg ''rk_deg_s'')
       (known_good (ap_raw_data.r_rad_s known) 0 (ap_raw_data.r_rad_s r) * 180 / pi) \<and>
   pk_deg_s (fst (input_conditioner cfg known held r)) =
     clamp_to (plausible cfg ''pk_deg_s'')
       (known_good (ap_raw_data.p_rad_s known) 0 (ap_raw_data.p_rad_s r) * 180 / pi)"
  by (simp add: input_conditioner_def convert_def substitute_def rad_to_deg_def)

lemma clamp_to_inside: "fst b \<le> x \<Longrightarrow> x \<le> snd b \<Longrightarrow> clamp_to b x = x"
  by (simp add: clamp_to_def)

text \<open>
  Whatever the bounds, some rate is changed by them: clamping is never the identity on
  every rate, so no tuning makes the conditioned rate equal to the converted raw rate
  for every input.
\<close>

lemma clamp_to_changes_some_rate: "\<exists>x. clamp_to b (x * 180 / pi) \<noteq> x * 180 / pi"
proof
  let ?y = "max (fst b) (snd b) + 1"
  have "clamp_to b ?y \<noteq> ?y"
    by (simp add: clamp_to_def max_def min_def)
  moreover have "(?y * pi / 180) * 180 / pi = ?y"
    by simp
  ultimately show "clamp_to b ((?y * pi / 180) * 180 / pi) \<noteq> (?y * pi / 180) * 180 / pi"
    by simp
qed

text \<open>The handler on a dual engagement: what it does for AP1 alone, and a reversion.\<close>

lemma selectors_ap_flags [simp]:
  "selectors (g\<lparr>enabled_AP1 := a, enabled_AP2 := b\<rparr>) = selectors g"
  "selectors (g\<lparr>enabled_AP2 := b\<rparr>) = selectors g"
  "selectors (g\<lparr>enabled_AP1 := a\<rparr>) = selectors g"
  by (simp_all add: selectors_def)

lemma handler_ap1_alone:
  assumes "flag_set (enabled_AP1 g)" and "flag_set (enabled_AP2 g)"
  shows "engagement_handler e g =
    (fst (engagement_handler e (g\<lparr>enabled_AP2 := 0\<rparr>)),
     snd (engagement_handler e (g\<lparr>enabled_AP2 := 0\<rparr>)) @ [Engagement_reversion])"
  using assms by (simp add: engagement_handler_def Let_def fd_requested_def flag_set_def)

text \<open>The step, one projection at a time.\<close>

lemma step_noop:
  "dt (ap_laws_input.time u) \<le> 0 \<Longrightarrow>
     step cfg c u =
       ((\<lparr>time = ap_laws_input.time u, data = last_data c, input = ap_laws_input.input u,
          output' = last_output c\<rparr>, []), c)"
  by (simp add: step_def)

lemma step_time: "time (fst (fst (step cfg c u))) = ap_laws_input.time u"
  by (simp add: step_def Let_def split_beta)

lemma step_input: "input (fst (fst (step cfg c u))) = ap_laws_input.input u"
  by (simp add: step_def Let_def split_beta)

lemma step_data:
  "data (fst (fst (step cfg c u))) =
     (if dt (ap_laws_input.time u) \<le> 0 then last_data c
      else with_accelerations
             (fst (estimate cfg (laws_state c) (ap_laws_input.time u)
                (checked (fst (input_conditioner cfg (last_known_good c) (last_data c)
                   (ap_laws_input.data u))))))
             (fst (input_conditioner cfg (last_known_good c) (last_data c)
                (ap_laws_input.data u))))"
  by (simp add: step_def Let_def split_beta)

lemma step_last_data: "last_data (snd (step cfg c u)) = data (fst (fst (step cfg c u)))"
  by (simp add: step_def Let_def split_beta)

lemma step_last_output:
  "last_output (snd (step cfg c u)) = output' (fst (fst (step cfg c u)))"
  by (simp add: step_def Let_def split_beta)

lemma step_engagement:
  "engagement (snd (step cfg c u)) =
     (if dt (ap_laws_input.time u) \<le> 0 then engagement c
      else fst (engagement_handler (engagement c) (ap_laws_input.input u)))"
  by (simp add: step_def Let_def split_beta)

lemma step_output_command:
  "0 < dt (ap_laws_input.time u) \<Longrightarrow>
     \<exists>lat ver. output' (fst (fst (step cfg c u))) =
       propagate cfg (fst (engagement_handler (engagement c) (ap_laws_input.input u)))
         (command_synthesizer cfg lat ver (checked (data (fst (fst (step cfg c u))))))"
  by (simp add: step_def Let_def split_beta) blast

lemma step_flight_director_ignores_ap:
  "flight_director (output' (fst (fst (step cfg c (with_ap_flags a b u))))) =
   flight_director (output' (fst (fst (step cfg c u))))"
  by (simp add: step_def Let_def split_beta with_ap_flags_def propagate_def
      command_synthesizer_def engagement_handler_def fd_requested_def)



text \<open>
  Nor do the navigation members of the snapshot the context holds reach a later tick: a
  tick with positive \<^verbatim>\<open>dt\<close> does the same whatever they are.
\<close>

lemma held_readings_are_not_read:
  assumes "0 < dt (ap_laws_input.time u)"
  shows "step cfg
           (c\<lparr>last_data := (last_data c)\<lparr>nav_loc_deg := loc, nav_gs_deg := gs,
              nav_dme_nmi := dme, nav_loc_error_deg := loc_error,
              nav_gs_error_deg := gs_error\<rparr>\<rparr>) u =
         step cfg c u"
  using assms by (simp add: step_def input_conditioner_def substitute_def)














text \<open>
  The held snapshot is normalised in every context a run from a reset reaches: the
  conditioner normalises what it emits, the estimator only fills in the accelerations,
  and a no-op tick hands the held snapshot on.
\<close>

lemma step_keeps_angles:
  assumes "angles_normalised (last_data c)"
  shows "angles_normalised (data (fst (fst (step cfg c u))))"
  using assms by (simp add: step_data with_accelerations_angles conditioner_angles)

lemma run_keeps_angles:
  "angles_normalised (last_data c) \<Longrightarrow>
     list_all (\<lambda>r. angles_normalised (data (fst r))) (fst (run cfg c us))"
proof (induction us arbitrary: c)
  case Nil
  then show ?case by simp
next
  case (Cons u us)
  have here: "angles_normalised (data (fst (fst (step cfg c u))))"
    using Cons.prems by (rule step_keeps_angles)
  then have "angles_normalised (last_data (snd (step cfg c u)))"
    by (simp add: step_last_data)
  then have "list_all (\<lambda>r. angles_normalised (data (fst r)))
      (fst (run cfg (snd (step cfg c u)) us))"
    by (rule Cons.IH)
  with here show ?case
    by (simp add: split_beta)
qed

section \<open>The examples, evaluated\<close>

text \<open>
  The example tick, conditioned: 370 and -10 degrees of heading become 10 and 350, a
  heading of 360 becomes 0, 190 and -200 degrees of attitude become -170 and 160, the
  pitch rate of pi/180 radians per second becomes 1 degree per second, the roll rate of
  -180 degrees per second stops at the bound of -100, the negative ground speed becomes
  0, the indicated altitude stops at the ceiling, and the accelerations are the
  estimator's.
\<close>

lemma example_tick_conditioned:
  "Psi_magnetic_deg (data (fst (fst (step example_tuning (initial_context example_tuning)
      (example_tick 1 example_guidance))))) = 10 \<and>
   Psi_magnetic_track_deg (data (fst (fst (step example_tuning (initial_context example_tuning)
      (example_tick 1 example_guidance))))) = 350 \<and>
   Psi_true_deg (data (fst (fst (step example_tuning (initial_context example_tuning)
      (example_tick 1 example_guidance))))) = 0 \<and>
   Theta_deg (data (fst (fst (step example_tuning (initial_context example_tuning)
      (example_tick 1 example_guidance))))) = - 170 \<and>
   Phi_deg (data (fst (fst (step example_tuning (initial_context example_tuning)
      (example_tick 1 example_guidance))))) = 160 \<and>
   qk_deg_s (data (fst (fst (step example_tuning (initial_context example_tuning)
      (example_tick 1 example_guidance))))) = 1 \<and>
   pk_deg_s (data (fst (fst (step example_tuning (initial_context example_tuning)
      (example_tick 1 example_guidance))))) = - 100 \<and>
   V_gnd_kn (data (fst (fst (step example_tuning (initial_context example_tuning)
      (example_tick 1 example_guidance))))) = 0 \<and>
   H_ind_ft (data (fst (fst (step example_tuning (initial_context example_tuning)
      (example_tick 1 example_guidance))))) = 41000 \<and>
   ax_m_s2 (data (fst (fst (step example_tuning (initial_context example_tuning)
      (example_tick 1 example_guidance))))) = 1"
  by (simp add: step_data example_tick_def example_raw_def example_tuning_def
      input_conditioner_def convert_def substitute_def known_good_def clamp_to_def
      with_accelerations_def wrap_360_def wrap_180_def rad_to_deg_def initial_context_def)

text \<open>
  The gates are not idle. With \<^verbatim>\<open>nav_valid\<close> and \<^verbatim>\<open>nav_loc_valid\<close> true the localizer
  deviation of 3 degrees reaches the localizer bank term; with the flags false, as in
  the example snapshot, the term reads zero. A localizer deviation that is not finite
  is a degraded input when the flags are true and goes unnoticed when they are false.
\<close>

lemma valid_deviation_is_read:
  "Phi_loc_c (output' (fst (fst (step example_tuning (initial_context example_tuning)
      example_nav_valid)))) = 3 \<and>
   Phi_loc_c (output' (fst (fst (step example_tuning (initial_context example_tuning)
      (example_tick 1 example_guidance))))) = 0"
  by (simp add: step_def Let_def split_beta example_nav_valid_def example_tick_def
      example_raw_def example_tuning_def input_conditioner_def convert_def substitute_def
      known_good_def clamp_to_def checked_def gate_def with_accelerations_def
      propagate_def command_synthesizer_def initial_context_def)

lemma invalid_reading_not_examined:
  "snd (fst (step example_tuning (initial_context example_tuning)
      (with_nav_readings (Finite 0, Finite 0, Finite 0, Non_finite, Finite 0)
         example_nav_valid))) = [Degraded_input, Engagement_reversion] \<and>
   snd (fst (step example_tuning (initial_context example_tuning)
      (with_nav_readings (Finite 0, Finite 0, Finite 0, Non_finite, Finite 0)
         (example_tick 1 example_guidance)))) = [Engagement_reversion]"
  by (simp add: step_def Let_def split_beta with_nav_readings_def example_nav_valid_def
      example_tick_def example_raw_def example_tuning_def example_guidance_def
      input_conditioner_def degraded_def examined_def sample_set_def
      engagement_handler_def flag_set_def initial_context_def)

text \<open>
  A tick that requests the flight director carries the synthesized command in the
  flight-director output while the autopilot output is idle.
\<close>

lemma flight_director_request_served:
  "flight_director (output' (fst (fst (step example_tuning (initial_context example_tuning)
      example_fd_connect)))) = \<lparr>Theta_c_deg = 15, Phi_c_deg = 9, Beta_c_deg = 0\<rparr> \<and>
   autopilot (output' (fst (fst (step example_tuning (initial_context example_tuning)
      example_fd_connect)))) = \<lparr>Theta_c_deg = 0, Phi_c_deg = 0, Beta_c_deg = 0\<rparr> \<and>
   ap_on (output' (fst (fst (step example_tuning (initial_context example_tuning)
      example_fd_connect)))) = 0"
  by (simp add: step_def Let_def split_beta example_fd_connect_def example_tick_def
      example_tuning_def propagate_def command_synthesizer_def engagement_handler_def
      fd_requested_def selectors_def speed_protection_supervisor_def flag_set_def
      example_no_ap_def example_guidance_def initial_context_def)

section \<open>The no-op tick against statements made of every tick\<close>

text \<open>
  Some statements of the specification are made of the components and do not hold of
  every tick once the no-op tick is in place. This does not hang on how the step is
  written above. Take any step function at all. If a tick with non-positive \<^verbatim>\<open>dt\<close>
  repeats the output command of the tick before it, and if on every tick \<^verbatim>\<open>ap_on\<close> is
  not zero only when exactly one channel is enabled, then \<^verbatim>\<open>ap_on\<close> is zero on every
  tick: the autopilot never engages.
\<close>

lemma hold_excludes_gating_on_every_tick:
  fixes f :: "'c \<Rightarrow> ap_laws_input \<Rightarrow> ap_laws_output \<times> 'c"
  assumes hold: "\<And>c u u'. dt (ap_laws_input.time u') \<le> 0 \<Longrightarrow>
      output' (fst (f (snd (f c u)) u')) = output' (fst (f c u))"
    and gate: "\<And>c u. ap_on (output' (fst (f c u))) \<noteq> 0 \<Longrightarrow>
      exactly_one_ap (ap_laws_input.input u)"
  shows "ap_on (output' (fst (f c u))) = 0"
proof (rule ccontr)
  assume on: "ap_on (output' (fst (f c u))) \<noteq> 0"
  have "dt (ap_laws_input.time (example_tick 0 example_no_ap)) \<le> 0"
    by (simp add: example_tick_def)
  then have "output' (fst (f (snd (f c u)) (example_tick 0 example_no_ap))) =
      output' (fst (f c u))"
    by (rule hold)
  with on have "ap_on (output' (fst (f (snd (f c u)) (example_tick 0 example_no_ap)))) \<noteq> 0"
    by simp
  then have "exactly_one_ap (ap_laws_input.input (example_tick 0 example_no_ap))"
    by (rule gate)
  then show False
    by (simp add: example_tick_def example_no_ap_def exactly_one_ap_def flag_set_def)
qed

text \<open>
  Likewise, if a tick with non-positive \<^verbatim>\<open>dt\<close> returns the context it was given, and
  if every tick with both channels enabled returns a context in which AP1 is the active
  channel, then AP1 is the active channel in every context, the initial one included.
\<close>

lemma hold_excludes_resolution_on_every_tick:
  fixes f :: "'c \<Rightarrow> ap_laws_input \<Rightarrow> 'r \<times> 'c" and channel :: "'c \<Rightarrow> ap_channel option"
  assumes hold: "\<And>c u. dt (ap_laws_input.time u) \<le> 0 \<Longrightarrow> snd (f c u) = c"
    and resolve: "\<And>c u. flag_set (enabled_AP1 (ap_laws_input.input u)) \<Longrightarrow>
      flag_set (enabled_AP2 (ap_laws_input.input u)) \<Longrightarrow> channel (snd (f c u)) = Some AP1"
  shows "channel c = Some AP1"
proof -
  have "dt (ap_laws_input.time (example_tick 0 example_guidance)) \<le> 0"
    by (simp add: example_tick_def)
  then have held: "snd (f c (example_tick 0 example_guidance)) = c"
    by (rule hold)
  have "channel (snd (f c (example_tick 0 example_guidance))) = Some AP1"
    by (rule resolve) (simp_all add: example_tick_def example_guidance_def flag_set_def)
  with held show ?thesis
    by simp
qed

text \<open>
  And if a tick with non-positive \<^verbatim>\<open>dt\<close> hands on the snapshot the context holds, its
  data part is the same whatever the sensor state of that tick is: it cannot be the
  conditioned form of that tick's sensor state for every input.
\<close>

lemma held_snapshot_ignores_input:
  assumes "dt (ap_laws_input.time u) \<le> 0"
  shows "data (fst (fst (step cfg c (u\<lparr>ap_laws_input.data := r\<rparr>)))) =
         data (fst (fst (step cfg c (u\<lparr>ap_laws_input.data := r'\<rparr>))))"
  using assms by (simp add: step_def)

section \<open>The claims\<close>

subsection \<open>C3: a tick with non-positive dt\<close>

text \<open>
  C3. A tick whose \<^verbatim>\<open>dt\<close> is zero or negative is a no-op. The step returns (it is a
  total function, with no failing branch), the context it returns is the context it was
  given, it issues no event, and the output command and the conditioned snapshot are the
  held ones. The held ones are those of the previous tick: whatever tick came before,
  with whatever context \<open>c0\<close> and input \<open>u0\<close>, the no-op tick that follows it leaves
  the context that tick returned as it is and repeats its output command and snapshot.
\<close>

theorem nonpositive_dt_is_noop:
  assumes "dt (ap_laws_input.time u) \<le> 0"
  shows "(\<exists>r c'. step cfg c u = (r, c')) \<and>
         snd (step cfg c u) = c \<and>
         output' (fst (fst (step cfg c u))) = last_output c \<and>
         data (fst (fst (step cfg c u))) = last_data c \<and>
         snd (fst (step cfg c u)) = [] \<and>
         snd (step cfg (snd (step cfg c0 u0)) u) = snd (step cfg c0 u0) \<and>
         output' (fst (fst (step cfg (snd (step cfg c0 u0)) u))) =
           output' (fst (fst (step cfg c0 u0))) \<and>
         data (fst (fst (step cfg (snd (step cfg c0 u0)) u))) =
           data (fst (fst (step cfg c0 u0)))"
  by (simp add: step_noop [OF assms] step_last_output step_last_data)

text \<open>
  A tick with \<^verbatim>\<open>dt = 0\<close> and no channel enabled: from the initial context it returns
  the initial context, and after a tick that engaged AP1 it still reports \<^verbatim>\<open>ap_on = 1\<close>.
\<close>

theorem nonpositive_dt_is_noop_witness:
  "dt (ap_laws_input.time (example_tick 0 example_no_ap)) \<le> 0 \<and>
   snd (step example_tuning (initial_context example_tuning) (example_tick 0 example_no_ap)) =
     initial_context example_tuning \<and>
   ap_on (output' (fst (fst (step example_tuning
       (snd (step example_tuning (initial_context example_tuning)
          (example_tick 1 example_ap1_only)))
       (example_tick 0 example_no_ap))))) = 1"
proof -
  have h: "dt (ap_laws_input.time (example_tick 0 example_no_ap)) \<le> 0"
    by (simp add: example_tick_def)
  have first: "ap_on (output' (fst (fst (step example_tuning (initial_context example_tuning)
          (example_tick 1 example_ap1_only))))) = 1"
    by (simp add: step_def Let_def split_beta example_tick_def propagate_def
        engagement_handler_def flag_set_def example_ap1_only_def example_guidance_def)
  show ?thesis
    using h first
      nonpositive_dt_is_noop [OF h, of example_tuning "initial_context example_tuning"
        "initial_context example_tuning" "example_tick 1 example_ap1_only"]
    by simp
qed

subsection \<open>C6: the navigation validity flags\<close>




subsection \<open>C7: the acceleration members\<close>

text \<open>
  C7, as amended. The raw sensor snapshot has three acceleration members, \<^verbatim>\<open>bx_m_s2\<close>,
  \<^verbatim>\<open>by_m_s2\<close> and \<^verbatim>\<open>bz_m_s2\<close>; the conditioned form has those three and \<^verbatim>\<open>ax_m_s2\<close>,
  \<^verbatim>\<open>ay_m_s2\<close>, \<^verbatim>\<open>az_m_s2\<close>. The acceleration members present only in the conditioned form
  are \<^verbatim>\<open>ax_m_s2\<close>, \<^verbatim>\<open>ay_m_s2\<close> and \<^verbatim>\<open>az_m_s2\<close>.
\<close>

theorem acceleration_fields_by_form:
  "acceleration_fields ap_raw_data_fields = [''bx_m_s2'', ''by_m_s2'', ''bz_m_s2''] \<and>
   acceleration_fields ap_data_fields =
     [''ax_m_s2'', ''ay_m_s2'', ''az_m_s2'', ''bx_m_s2'', ''by_m_s2'', ''bz_m_s2''] \<and>
   filter only_in_conditioned (acceleration_fields ap_data_fields) =
     [''ax_m_s2'', ''ay_m_s2'', ''az_m_s2'']"
  by code_simp

text \<open>
  The claim as stated, no body acceleration in the raw snapshot, fails at
  \<^verbatim>\<open>bx_m_s2\<close>: it is an acceleration member of the conditioned form and a member of the
  raw snapshot as well.
\<close>

theorem raw_snapshot_has_body_accelerations:
  "is_acceleration_field ''bx_m_s2'' \<and>
   ''bx_m_s2'' \<in> set (field_names ap_data_fields) \<and>
   ''bx_m_s2'' \<in> set (field_names ap_raw_data_fields) \<and>
   \<not> only_in_conditioned ''bx_m_s2''"
  by code_simp

subsection \<open>C8: normalised angles\<close>

text \<open>
  C8. In the output aggregate of every tick of a run that starts from a reset, the
  heading and track members \<^verbatim>\<open>Psi_magnetic_deg\<close>, \<^verbatim>\<open>Psi_magnetic_track_deg\<close> and
  \<^verbatim>\<open>Psi_true_deg\<close> lie in [0, 360) and the attitude members \<^verbatim>\<open>Theta_deg\<close> and
  \<^verbatim>\<open>Phi_deg\<close> lie in [-180, 180], whatever the inputs and whatever the tuning.
\<close>

theorem output_angles_normalised:
  "list_all (\<lambda>r. angles_normalised (data (fst r))) (fst (run cfg (reset cfg c) us))"
  by (rule run_keeps_angles) (simp add: reset_def initial_context_def zero_data_angles)

subsection \<open>C10: real-valued flags and mode codes\<close>

text \<open>
  C10. The engagement flags \<^verbatim>\<open>enabled_AP1\<close> and \<^verbatim>\<open>enabled_AP2\<close>, the law and mode
  selectors \<^verbatim>\<open>lateral_law\<close>, \<^verbatim>\<open>lateral_mode\<close>, \<^verbatim>\<open>vertical_law\<close>, \<^verbatim>\<open>vertical_mode\<close>, the
  reversion triggers \<^verbatim>\<open>mode_reversion_lateral\<close> and \<^verbatim>\<open>mode_reversion_vertical\<close>,
  \<^verbatim>\<open>autothrust_mode\<close> and the output's \<^verbatim>\<open>ap_on\<close> are declared \<^verbatim>\<open>real_T\<close>, not boolean
  and not an enumeration. So for any real numbers whatever there is a guidance command
  that holds them in these members, and an output that holds any real number in
  \<^verbatim>\<open>ap_on\<close>: the interface admits every real value there, not only 0 and 1 or a listed
  mode code.
\<close>

theorem mode_fields_are_real_valued:
  "list_all (\<lambda>n. field_type ap_raw_laws_input_fields n = Some Real_T)
     [''enabled_AP1'', ''enabled_AP2'', ''lateral_law'', ''lateral_mode'', ''vertical_law'',
      ''vertical_mode'', ''mode_reversion_lateral'', ''mode_reversion_vertical'',
      ''autothrust_mode''] \<and>
   field_type ap_raw_output_fields ''ap_on'' = Some Real_T \<and>
   (\<exists>g :: ap_raw_laws_input.
      enabled_AP1 g = a1 \<and> enabled_AP2 g = a2 \<and> lateral_law g = ll \<and> lateral_mode g = lm \<and>
      vertical_law g = vl \<and> vertical_mode g = vm \<and> mode_reversion_lateral g = rl \<and>
      mode_reversion_vertical g = rv \<and> autothrust_mode g = am) \<and>
   (\<exists>out :: ap_raw_output. ap_on out = on)"
proof (intro conjI)
  show "list_all (\<lambda>n. field_type ap_raw_laws_input_fields n = Some Real_T)
     [''enabled_AP1'', ''enabled_AP2'', ''lateral_law'', ''lateral_mode'', ''vertical_law'',
      ''vertical_mode'', ''mode_reversion_lateral'', ''mode_reversion_vertical'',
      ''autothrust_mode'']"
    by code_simp
  show "field_type ap_raw_output_fields ''ap_on'' = Some Real_T"
    by code_simp
  show "\<exists>g :: ap_raw_laws_input.
      enabled_AP1 g = a1 \<and> enabled_AP2 g = a2 \<and> lateral_law g = ll \<and> lateral_mode g = lm \<and>
      vertical_law g = vl \<and> vertical_mode g = vm \<and> mode_reversion_lateral g = rl \<and>
      mode_reversion_vertical g = rv \<and> autothrust_mode g = am"
    by (rule exI [of _ "example_guidance\<lparr>enabled_AP1 := a1, enabled_AP2 := a2,
          lateral_law := ll, lateral_mode := lm, vertical_law := vl, vertical_mode := vm,
          mode_reversion_lateral := rl, mode_reversion_vertical := rv,
          autothrust_mode := am\<rparr>"])
      simp
  show "\<exists>out :: ap_raw_output. ap_on out = on"
    by (rule exI [of _ "\<lparr>ap_on = on, Phi_loc_c = 0, flight_director = idle example_tuning,
          autopilot = idle example_tuning\<rparr>"])
      simp
qed

end
